theory Spec2Isabelle
  imports Complex_Main "HOL-Library.Char_ord" "HOL-Library.List_Lexorder" "HOL-Library.Multiset"
begin

section \<open>Texts: the string operations \<open>update_map\<close> relies on\<close>

text \<open>
  Query and address texts are \<open>string\<close>s over the ASCII alphabet. The character classes
  are those of Python on ASCII text: \<open>str.strip\<close> and the regular-expression class
  \<open>\s\<close> use the same whitespace predicate (code points 9 to 13, 28 to 31 and 32),
  \<open>\d\<close> is a decimal digit, and \<open>.\<close> is every character but the line feed.
  Characters outside ASCII are treated as caseless symbols that are neither whitespace
  nor digits.
\<close>

definition is_space :: "char \<Rightarrow> bool" where
  "is_space c = (let n = (of_char c :: nat) in (9 \<le> n \<and> n \<le> 13) \<or> (28 \<le> n \<and> n \<le> 32))"

definition is_digit :: "char \<Rightarrow> bool" where
  "is_digit c = (let n = (of_char c :: nat) in 48 \<le> n \<and> n \<le> 57)"

definition is_newline :: "char \<Rightarrow> bool" where
  "is_newline c = ((of_char c :: nat) = 10)"

definition lower_char :: "char \<Rightarrow> char" where
  "lower_char c = (let n = (of_char c :: nat) in if 65 \<le> n \<and> n \<le> 90 then char_of (n + 32) else c)"

text \<open>\<open>s.strip()\<close>: leading and trailing whitespace removed.\<close>

definition strip :: "string \<Rightarrow> string" where
  "strip s = rev (dropWhile is_space (rev (dropWhile is_space s)))"

text \<open>\<open>int(s)\<close> on a run of decimal digits; Python integers are unbounded.\<close>

definition digit_val :: "char \<Rightarrow> nat" where
  "digit_val c = (of_char c :: nat) - 48"

definition int_of_digits :: "string \<Rightarrow> int" where
  "int_of_digits s = int (foldl (\<lambda>acc c. 10 * acc + digit_val c) 0 s)"

subsection \<open>The query pattern \<open>(\d+)?\s*(.+)\<close>\<close>

text \<open>
  \<open>re.match\<close> is a backtracking matcher: every quantifier is greedy, and gives
  characters back one at a time when the rest of the pattern fails. The three functions
  below follow the pattern from right to left.
  \<^item> \<open>dot_plus s\<close> is \<open>(.+)\<close> at \<open>s\<close>: the longest run of characters that are not
    line feeds, which must not be empty. Nothing follows it in the pattern, so it never
    gives a character back.
  \<^item> \<open>spaces_then_rest k s\<close> is \<open>\s*(.+)\<close> at \<open>s\<close> with at most \<open>k\<close> whitespace
    characters taken: it tries \<open>k\<close> first, then \<open>k - 1\<close>, down to none.
  \<^item> \<open>digits_then_rest k s\<close> is \<open>(\d+)\s*(.+)\<close> with at most \<open>k\<close> digits in the group:
    it tries \<open>k\<close> digits first, down to one.
  \<open>address_match\<close> tries the group with the longest run of digits first and, when
  every length fails, the pattern without the group (\<open>group(1)\<close> is then \<open>None\<close>).
  The result is \<open>(group(1), group(2))\<close>, or \<open>None\<close> when the pattern does not match.
\<close>

definition dot_plus :: "string \<Rightarrow> string option" where
  "dot_plus s = (let g = takeWhile (\<lambda>c. \<not> is_newline c) s in if g = [] then None else Some g)"

fun spaces_then_rest :: "nat \<Rightarrow> string \<Rightarrow> string option" where
  "spaces_then_rest 0 s = dot_plus s"
| "spaces_then_rest (Suc k) s =
     (case dot_plus (drop (Suc k) s) of
        Some g \<Rightarrow> Some g
      | None \<Rightarrow> spaces_then_rest k s)"

definition spaces_star_rest :: "string \<Rightarrow> string option" where
  "spaces_star_rest s = spaces_then_rest (length (takeWhile is_space s)) s"

fun digits_then_rest :: "nat \<Rightarrow> string \<Rightarrow> (string \<times> string) option" where
  "digits_then_rest 0 s = None"
| "digits_then_rest (Suc k) s =
     (case spaces_star_rest (drop (Suc k) s) of
        Some g \<Rightarrow> Some (take (Suc k) s, g)
      | None \<Rightarrow> digits_then_rest k s)"

definition address_match :: "string \<Rightarrow> (string option \<times> string) option" where
  "address_match s =
     (case digits_then_rest (length (takeWhile is_digit s)) s of
        Some (d, g) \<Rightarrow> Some (Some d, g)
      | None \<Rightarrow> map_option (Pair None) (spaces_star_rest s))"

text \<open>
  \<open>re.search(r'(\d+)', x)\<close>: the first maximal run of digits of \<open>x\<close>, or \<open>None\<close>
  when \<open>x\<close> has no digit.
\<close>

definition first_digits :: "string \<Rightarrow> string option" where
  "first_digits x =
     (let r = dropWhile (\<lambda>c. \<not> is_digit c) x
      in if r = [] then None else Some (takeWhile is_digit r))"

section \<open>Sequence similarity: \<open>difflib.SequenceMatcher\<close>\<close>

text \<open>
  \<open>difflib.get_close_matches\<close> scores every candidate \<open>x\<close> against the word with
  \<open>SequenceMatcher(a = x, b = word).ratio()\<close>. The matcher is built without a junk
  predicate, so its junk set is empty; its automatic heuristic still drops "popular"
  characters from the index of \<open>b\<close> when \<open>b\<close> has at least 200 characters: those that
  occur more than \<open>len(b) // 100 + 1\<close> times.
\<close>

definition is_popular :: "string \<Rightarrow> char \<Rightarrow> bool" where
  "is_popular b c = (200 \<le> length b \<and> length b div 100 + 1 < count_list b c)"

text \<open>\<open>b2j.get(c, [])\<close>: the positions of \<open>c\<close> in \<open>b\<close>, ascending; none for a popular one.\<close>

definition b2j_get :: "string \<Rightarrow> char \<Rightarrow> nat list" where
  "b2j_get b c = (if is_popular b c then [] else filter (\<lambda>j. b ! j = c) [0..<length b])"

text \<open>
  \<open>find_longest_match(alo, ahi, blo, bhi)\<close>. The dictionary \<open>j2len\<close> maps \<open>j\<close> to the
  length of the longest match ending at \<open>a[i-1]\<close> and \<open>b[j]\<close>; a missing key reads as 0,
  so it is a function here. \<open>scan_cell\<close> is the body of the inner loop (the index \<open>-1\<close>
  is never a key, hence the test on \<open>j = 0\<close>), \<open>scan_row\<close> the body of the outer loop;
  the inner loop skips \<open>j < blo\<close> and stops at \<open>j \<ge> bhi\<close>.
\<close>

definition scan_cell ::
  "nat \<Rightarrow> (nat \<Rightarrow> nat) \<Rightarrow> nat \<Rightarrow> (nat \<Rightarrow> nat) \<times> nat \<times> nat \<times> nat \<Rightarrow> (nat \<Rightarrow> nat) \<times> nat \<times> nat \<times> nat" where
  "scan_cell i j2len j st =
     (case st of (newj2len, besti, bestj, bestsize) \<Rightarrow>
        let k = (if j = 0 then 0 else j2len (j - 1)) + 1
        in (newj2len(j := k),
            if bestsize < k then (i + 1 - k, j + 1 - k, k) else (besti, bestj, bestsize)))"

definition scan_row ::
  "string \<Rightarrow> string \<Rightarrow> nat \<Rightarrow> nat \<Rightarrow> nat \<Rightarrow> (nat \<Rightarrow> nat) \<times> nat \<times> nat \<times> nat \<Rightarrow> (nat \<Rightarrow> nat) \<times> nat \<times> nat \<times> nat" where
  "scan_row a b blo bhi i st =
     (case st of (j2len, best) \<Rightarrow>
        fold (scan_cell i j2len) (filter (\<lambda>j. blo \<le> j \<and> j < bhi) (b2j_get b (a ! i)))
          (\<lambda>_. 0, best))"

text \<open>
  The two loops that extend the match over equal characters on both sides. With an empty
  junk set \<open>isbjunk\<close> is always false, and the two later loops of the library, which
  extend over junk only, never run.
\<close>

function extend_left :: "string \<Rightarrow> string \<Rightarrow> nat \<Rightarrow> nat \<Rightarrow> nat \<times> nat \<times> nat \<Rightarrow> nat \<times> nat \<times> nat" where
  "extend_left a b alo blo (besti, bestj, bestsize) =
     (if alo < besti \<and> blo < bestj \<and> a ! (besti - 1) = b ! (bestj - 1)
      then extend_left a b alo blo (besti - 1, bestj - 1, bestsize + 1)
      else (besti, bestj, bestsize))"
  by pat_completeness auto
termination
  by (relation "measure (\<lambda>(a, b, alo, blo, besti, bestj, bestsize). besti)") auto

function extend_right :: "string \<Rightarrow> string \<Rightarrow> nat \<Rightarrow> nat \<Rightarrow> nat \<times> nat \<times> nat \<Rightarrow> nat \<times> nat \<times> nat" where
  "extend_right a b ahi bhi (besti, bestj, bestsize) =
     (if besti + bestsize < ahi \<and> bestj + bestsize < bhi
         \<and> a ! (besti + bestsize) = b ! (bestj + bestsize)
      then extend_right a b ahi bhi (besti, bestj, bestsize + 1)
      else (besti, bestj, bestsize))"
  by pat_completeness auto
termination
  by (relation "measure (\<lambda>(a, b, ahi, bhi, besti, bestj, bestsize). ahi - (besti + bestsize))") auto

definition find_longest_match ::
  "string \<Rightarrow> string \<Rightarrow> nat \<Rightarrow> nat \<Rightarrow> nat \<Rightarrow> nat \<Rightarrow> nat \<times> nat \<times> nat" where
  "find_longest_match a b alo ahi blo bhi =
     extend_right a b ahi bhi
       (extend_left a b alo blo
          (snd (fold (scan_row a b blo bhi) [alo..<ahi] (\<lambda>_. 0, alo, blo, 0))))"

subsection \<open>The longest match lies inside its window\<close>

text \<open>
  \<open>get_matching_blocks\<close> recurses on the pieces left and right of the longest match.
  That recursion ends because a match of positive size lies inside the window it was
  searched in; \<open>len_ok\<close> and \<open>best_ok\<close> are the loop invariants of the search.
\<close>

definition len_ok :: "nat \<Rightarrow> nat \<Rightarrow> nat \<Rightarrow> (nat \<Rightarrow> nat) \<Rightarrow> bool" where
  "len_ok blo bhi n f = (\<forall>j. f j \<le> n \<and> (0 < f j \<longrightarrow> blo \<le> j \<and> j < bhi \<and> f j \<le> j + 1 - blo))"

definition best_ok :: "nat \<Rightarrow> nat \<Rightarrow> nat \<Rightarrow> nat \<Rightarrow> nat \<times> nat \<times> nat \<Rightarrow> bool" where
  "best_ok alo ahi blo bhi t =
     (case t of (i, j, k) \<Rightarrow>
        alo \<le> i \<and> blo \<le> j \<and> (if k = 0 then i = alo \<and> j = blo else i + k \<le> ahi \<and> j + k \<le> bhi))"

declare extend_left.simps [simp del] extend_right.simps [simp del]

lemma scan_cell_ok:
  assumes "len_ok blo bhi (i - alo) j2len" "len_ok blo bhi (i + 1 - alo) new"
    "best_ok alo ahi blo bhi best" "blo \<le> j" "j < bhi" "alo \<le> i" "i < ahi"
    "scan_cell i j2len j (new, best) = (new', best')"
  shows "len_ok blo bhi (i + 1 - alo) new' \<and> best_ok alo ahi blo bhi best'"
proof -
  define k where "k = (if j = 0 then 0 else j2len (j - 1)) + 1"
  have k1: "k \<le> i + 1 - alo"
    using assms(1,6) unfolding k_def len_ok_def
    by (auto simp: le_diff_conv Suc_diff_le)
  have k2: "k \<le> j + 1 - blo"
  proof (cases "j = 0 \<or> j2len (j - 1) = 0")
    case True
    then show ?thesis using assms(4) unfolding k_def by auto
  next
    case False
    then have "blo \<le> j - 1 \<and> j2len (j - 1) \<le> (j - 1) + 1 - blo"
      using assms(1) unfolding len_ok_def by (metis bot_nat_0.not_eq_extremum)
    then show ?thesis using False unfolding k_def by auto
  qed
  have k0: "0 < k" unfolding k_def by simp
  obtain bi bj bs where b: "best = (bi, bj, bs)" by (cases best) auto
  have new': "new' = new(j := k)"
    and best': "best' = (if bs < k then (i + 1 - k, j + 1 - k, k) else (bi, bj, bs))"
    using assms(8) unfolding scan_cell_def b k_def by (auto simp: Let_def)
  have "len_ok blo bhi (i + 1 - alo) new'"
    using assms(2,4,5) k1 k2 unfolding new' len_ok_def by auto
  moreover have "best_ok alo ahi blo bhi best'"
    using assms(3,4,5,6,7) k0 k1 k2 unfolding best' b best_ok_def by auto
  ultimately show ?thesis by simp
qed

lemma fold_scan_cell_ok:
  assumes "len_ok blo bhi (i - alo) j2len" "alo \<le> i" "i < ahi"
  shows "len_ok blo bhi (i + 1 - alo) new \<Longrightarrow> best_ok alo ahi blo bhi best \<Longrightarrow>
    \<forall>j \<in> set js. blo \<le> j \<and> j < bhi \<Longrightarrow>
    len_ok blo bhi (i + 1 - alo) (fst (fold (scan_cell i j2len) js (new, best)))
    \<and> best_ok alo ahi blo bhi (snd (fold (scan_cell i j2len) js (new, best)))"
proof (induction js arbitrary: new best)
  case Nil
  then show ?case by simp
next
  case (Cons j js)
  obtain new' best' where s: "scan_cell i j2len j (new, best) = (new', best')"
    by (cases "scan_cell i j2len j (new, best)") auto
  from scan_cell_ok[OF assms(1) Cons.prems(1) Cons.prems(2) _ _ assms(2) assms(3) s] Cons.prems(3)
  have "len_ok blo bhi (i + 1 - alo) new'" "best_ok alo ahi blo bhi best'" by auto
  from Cons.IH[OF this] Cons.prems(3) show ?case by (simp add: s)
qed

lemma scan_row_ok:
  assumes "len_ok blo bhi (i - alo) j2len" "best_ok alo ahi blo bhi best" "alo \<le> i" "i < ahi"
  shows "len_ok blo bhi (i + 1 - alo) (fst (scan_row a b blo bhi i (j2len, best)))
    \<and> best_ok alo ahi blo bhi (snd (scan_row a b blo bhi i (j2len, best)))"
proof -
  have z: "len_ok blo bhi (i + 1 - alo) (\<lambda>_. 0)" by (simp add: len_ok_def)
  show ?thesis
    unfolding scan_row_def prod.case
    by (rule fold_scan_cell_ok[OF assms(1) assms(3) assms(4) z assms(2)]) simp
qed

lemma fold_scan_row_ok:
  "len_ok blo bhi (lo - alo) f \<Longrightarrow> best_ok alo ahi blo bhi best \<Longrightarrow> alo \<le> lo \<Longrightarrow>
   lo + n \<le> ahi \<Longrightarrow>
   best_ok alo ahi blo bhi (snd (fold (scan_row a b blo bhi) [lo..<lo + n] (f, best)))"
proof (induction n arbitrary: lo f best)
  case 0
  then show ?case by simp
next
  case (Suc n)
  have up: "[lo..<lo + Suc n] = lo # [Suc lo..<Suc lo + n]"
    by (simp add: upt_conv_Cons)
  obtain f' best' where s: "scan_row a b blo bhi lo (f, best) = (f', best')"
    by (cases "scan_row a b blo bhi lo (f, best)") auto
  have "lo < ahi" using Suc.prems(4) by simp
  from scan_row_ok[OF Suc.prems(1) Suc.prems(2) Suc.prems(3) this, where a = a and b = b]
  have "len_ok blo bhi (Suc lo - alo) f'" "best_ok alo ahi blo bhi best'" by (auto simp: s)
  from Suc.IH[OF this] Suc.prems
  have "best_ok alo ahi blo bhi (snd (fold (scan_row a b blo bhi) [Suc lo..<Suc lo + n] (f', best')))"
    by simp
  moreover have "fold (scan_row a b blo bhi) [lo..<lo + Suc n] (f, best)
      = fold (scan_row a b blo bhi) [Suc lo..<Suc lo + n] (f', best')"
    unfolding up by (simp only: fold.simps o_apply s)
  ultimately show ?case by simp
qed

lemma extend_left_ok:
  "best_ok alo ahi blo bhi t \<Longrightarrow> best_ok alo ahi blo bhi (extend_left a b alo blo t)"
proof (induction a b alo blo t rule: extend_left.induct)
  case (1 a b alo blo besti bestj bestsize)
  show ?case
  proof (cases "alo < besti \<and> blo < bestj \<and> a ! (besti - 1) = b ! (bestj - 1)")
    case True
    have "best_ok alo ahi blo bhi (besti - 1, bestj - 1, bestsize + 1)"
      using "1.prems" True unfolding best_ok_def by (auto split: if_splits)
    from "1.IH"[OF True this] True show ?thesis by (subst extend_left.simps) simp
  next
    case False
    then show ?thesis using "1.prems" by (subst extend_left.simps) auto
  qed
qed

lemma extend_right_ok:
  "best_ok alo ahi blo bhi t \<Longrightarrow> best_ok alo ahi blo bhi (extend_right a b ahi bhi t)"
proof (induction a b ahi bhi t rule: extend_right.induct)
  case (1 a b ahi bhi besti bestj bestsize)
  show ?case
  proof (cases "besti + bestsize < ahi \<and> bestj + bestsize < bhi
         \<and> a ! (besti + bestsize) = b ! (bestj + bestsize)")
    case True
    have "best_ok alo ahi blo bhi (besti, bestj, bestsize + 1)"
      using "1.prems" True unfolding best_ok_def by (auto split: if_splits)
    from "1.IH"[OF True this] True show ?thesis by (subst extend_right.simps) simp
  next
    case False
    then show ?thesis using "1.prems" by (subst extend_right.simps) auto
  qed
qed

lemma find_longest_match_ok:
  "best_ok alo ahi blo bhi (find_longest_match a b alo ahi blo bhi)"
proof -
  have b0: "best_ok alo ahi blo bhi (alo, blo, 0)" by (simp add: best_ok_def)
  have l0: "len_ok blo bhi (alo - alo) (\<lambda>_. 0)" by (simp add: len_ok_def)
  have "best_ok alo ahi blo bhi (snd (fold (scan_row a b blo bhi) [alo..<ahi] (\<lambda>_. 0, alo, blo, 0)))"
  proof (cases "alo \<le> ahi")
    case True
    then obtain n where n: "ahi = alo + n" using le_Suc_ex by blast
    show ?thesis unfolding n
      by (rule fold_scan_row_ok[OF l0 _ order_refl]) (simp_all add: best_ok_def)
  next
    case False
    then show ?thesis using b0 by simp
  qed
  then show ?thesis unfolding find_longest_match_def
    by (intro extend_right_ok extend_left_ok)
qed


lemma find_longest_match_bounds:
  assumes "find_longest_match a b alo ahi blo bhi = (i, j, k)" "k \<noteq> 0"
  shows "alo \<le> i \<and> i + k \<le> ahi \<and> blo \<le> j \<and> j + k \<le> bhi"
  using find_longest_match_ok[of alo ahi blo bhi a b] assms by (simp add: best_ok_def)

text \<open>
  The number of matched characters: the sum of the sizes of \<open>get_matching_blocks()\<close>.
  The library keeps a queue of windows; the recursion below visits the same windows,
  under the same two tests, and the sum does not depend on the order.
\<close>

function matching_size :: "string \<Rightarrow> string \<Rightarrow> nat \<Rightarrow> nat \<Rightarrow> nat \<Rightarrow> nat \<Rightarrow> nat" where
  "matching_size a b alo ahi blo bhi =
     (case find_longest_match a b alo ahi blo bhi of (i, j, k) \<Rightarrow>
        if k = 0 then 0
        else k + (if alo < i \<and> blo < j then matching_size a b alo i blo j else 0)
               + (if i + k < ahi \<and> j + k < bhi then matching_size a b (i + k) ahi (j + k) bhi else 0))"
  by pat_completeness auto
termination
  apply (relation "measure (\<lambda>(a, b, alo, ahi, blo, bhi). (ahi - alo) + (bhi - blo))")
    apply simp
  subgoal for a b alo ahi blo bhi i y j k
    using find_longest_match_bounds[of a b alo ahi blo bhi i j k] by auto
  subgoal for a b alo ahi blo bhi i y j k
    using find_longest_match_bounds[of a b alo ahi blo bhi i j k] by auto
  done

declare matching_size.simps [simp del]

text \<open>
  \<open>ratio()\<close>: \<open>2.0 * matches / length\<close>, and 1.0 when both texts are empty. The
  model computes the quotient as a rational number.
\<close>

definition ratio :: "string \<Rightarrow> string \<Rightarrow> rat" where
  "ratio a b =
     (let matches = matching_size a b 0 (length a) 0 (length b);
          len = length a + length b
      in if len \<noteq> 0 then 2 * of_nat matches / of_nat len else 1)"

subsection \<open>\<open>difflib.get_close_matches(word, possibilities, n=1, cutoff=0.7)\<close>\<close>

text \<open>
  The library keeps the pairs \<open>(ratio, x)\<close> of the candidates whose ratio reaches the
  cutoff, and returns the text of the largest pair (\<open>heapq.nlargest(1, result)\<close>, which
  for \<open>n = 1\<close> is \<open>max\<close>: the first of the largest). Pairs are compared as Python
  tuples: by ratio, then by text. The two cheaper upper bounds the library tests before
  \<open>ratio()\<close> (\<open>real_quick_ratio\<close>, \<open>quick_ratio\<close>) only save time: a candidate whose
  ratio reaches the cutoff passes both, so they are left out.
\<close>

definition cutoff :: rat where
  "cutoff = 7 / 10"

definition scored :: "string \<Rightarrow> string list \<Rightarrow> (rat \<times> string) list" where
  "scored word possibilities =
     map (\<lambda>x. (ratio x word, x)) (filter (\<lambda>x. cutoff \<le> ratio x word) possibilities)"

definition tuple_less :: "rat \<times> string \<Rightarrow> rat \<times> string \<Rightarrow> bool" where
  "tuple_less p q = (fst p < fst q \<or> (fst p = fst q \<and> snd p < snd q))"

fun nlargest1 :: "(rat \<times> string) list \<Rightarrow> (rat \<times> string) list" where
  "nlargest1 [] = []"
| "nlargest1 (p # ps) = [fold (\<lambda>q best. if tuple_less best q then q else best) ps p]"

definition get_close_matches :: "string \<Rightarrow> string list \<Rightarrow> string list" where
  "get_close_matches word possibilities = map snd (nlargest1 (scored word possibilities))"

section \<open>The dataset\<close>

text \<open>
  \<open>rent_df\<close> is a table the callback reads but the module never builds; it is a
  parameter here, a list of rows in table order. A cell that pandas reads as missing
  (\<open>NaN\<close>, \<open>None\<close>) is \<open>None\<close>. \<open>block_num\<close> is \<open>None\<close> as well when its cell is not a
  number, which is what \<open>pd.to_numeric(errors='coerce')\<close> turns it into. A numeric cell
  is the number written in the data, as a rational; the aggregation reads it as a 64-bit
  float. Unit counts and block numbers are unbounded integers.
\<close>

record rental_record =
  block_address :: "string option"
  block_num :: "int option"
  cleaned_monthly_rent :: "rat option"
  cleaned_square_footage :: "rat option"
  cleaned_bedroom_count :: "rat option"
  cleaned_bathroom_count :: "rat option"
  unit_count :: "int option"
  latitude :: "rat option"
  longitude :: "rat option"

subsection \<open>\<open>Series.str.contains(pat, na=False, case=False)\<close>\<close>

text \<open>
  pandas reads \<open>pat\<close> as a regular expression. For a pattern without any of the
  characters \<open>. ^ $ * + ? { } [ ] \ | ( )\<close> the search is a plain substring search,
  here without regard to case; \<open>plain_pattern\<close> marks these patterns, and the model of
  \<open>update_map\<close> covers no other. A missing address counts as no match (\<open>na=False\<close>).
\<close>

definition regex_special :: "char list" where
  "regex_special = ''.^$*+?{}[]|()'' @ [char_of (92 :: nat)]"

definition plain_pattern :: "string \<Rightarrow> bool" where
  "plain_pattern pat = list_all (\<lambda>c. c \<notin> set regex_special) pat"

fun starts_with :: "string \<Rightarrow> string \<Rightarrow> bool" where
  "starts_with [] s = True"
| "starts_with (p # ps) [] = False"
| "starts_with (p # ps) (c # cs) = (p = c \<and> starts_with ps cs)"

fun is_substring :: "string \<Rightarrow> string \<Rightarrow> bool" where
  "is_substring pat [] = (pat = [])"
| "is_substring pat (c # cs) = (starts_with pat (c # cs) \<or> is_substring pat cs)"

definition str_contains :: "string \<Rightarrow> string option \<Rightarrow> bool" where
  "str_contains pat cell =
     (case cell of
        None \<Rightarrow> False
      | Some x \<Rightarrow> is_substring (map lower_char pat) (map lower_char x))"

section \<open>64-bit floating point\<close>

text \<open>
  pandas holds the numeric columns as IEEE 754 binary64 numbers, and every sum and
  quotient of the aggregation is rounded to one. A float is modelled by the rational it
  denotes. \<open>round_double x\<close> is the float nearest to \<open>x\<close>, ties going to the even
  mantissa: the mantissa has 53 bits, and below \<open>2 ^ -1022\<close> the exponent stays at
  \<open>-1074\<close> (gradual underflow). Overflow is not modelled: the numbers of a rent table
  are far from \<open>2 ^ 1024\<close>.
  \<^item> \<open>bit_length n\<close> is the least \<open>k\<close> with \<open>n < 2 ^ k\<close>, for \<open>n \<ge> 0\<close>;
  \<^item> \<open>ilog2 x\<close> is \<open>\<lfloor>log\<^sub>2 x\<rfloor>\<close>, for \<open>x > 0\<close>;
  \<^item> \<open>pow2 e\<close> is \<open>2 ^ e\<close> for an integer \<open>e\<close>;
  \<^item> \<open>round_half_even m\<close> is the integer nearest to \<open>m\<close>, the even one of two.
\<close>

function bit_length_from :: "int \<Rightarrow> int \<Rightarrow> int \<Rightarrow> int" where
  "bit_length_from p k n =
     (if n < p \<or> p \<le> 0 then k else bit_length_from (2 * p) (k + 1) n)"
  by pat_completeness auto
termination
  by (relation "measure (\<lambda>(p, k, n). nat (n - p + 1))") auto

declare bit_length_from.simps [simp del]

definition bit_length :: "int \<Rightarrow> int" where
  "bit_length n = bit_length_from 1 0 n"

definition ilog2 :: "rat \<Rightarrow> int" where
  "ilog2 x = (if 1 \<le> x then bit_length \<lfloor>x\<rfloor> - 1 else - bit_length (\<lceil>1 / x\<rceil> - 1))"

definition pow2 :: "int \<Rightarrow> rat" where
  "pow2 e = (if 0 \<le> e then 2 ^ nat e else 1 / 2 ^ nat (- e))"

definition round_half_even :: "rat \<Rightarrow> int" where
  "round_half_even m =
     (let f = \<lfloor>m\<rfloor>; r = m - of_int f
      in if r < 1 / 2 then f else if 1 / 2 < r then f + 1 else if even f then f else f + 1)"

definition round_double :: "rat \<Rightarrow> rat" where
  "round_double x =
     (if x = 0 then 0
      else let e = max (ilog2 \<bar>x\<bar> - 52) (- 1074)
           in of_int (round_half_even (x / pow2 e)) * pow2 e)"

section \<open>The aggregation\<close>

text \<open>
  \<open>groupby("block_address").agg({...}).reset_index()\<close>: one row per address, the
  addresses in ascending order, rows without an address left out. Each reduction skips
  missing cells; \<open>mean\<close> and \<open>median\<close> of no value at all are missing, \<open>sum\<close> of no
  value is 0. The fields of \<open>block_summary\<close> carry the names the columns have after the
  renaming.

  \<open>float_cells\<close> are the values of a column as pandas holds them: the cells that are
  present, each as a float. \<open>mean\<close> is pandas' \<open>group_mean\<close>: it adds the values in
  row order with Kahan's compensated summation (\<open>kahan_step\<close> is the body of its loop,
  on the running sum and the compensation, every operation rounded) and divides the
  sum by the number of values. \<open>median\<close> is the middle value of the sorted values, or
  for an even number of them the two middle values added and halved. The unit counts
  are integers and their sum is exact.
\<close>

record block_summary =
  summary_block_address :: string
  Average_Monthly_Rent :: "rat option"
  Average_Square_Footage :: "rat option"
  Average_Bedroom_Count :: "rat option"
  Average_Bathroom_Count :: "rat option"
  Total_Rental_Units :: int
  mean_lat :: "rat option"
  mean_lon :: "rat option"

definition present_cells :: "'a option list \<Rightarrow> 'a list" where
  "present_cells cells = List.map_filter id cells"

definition float_cells :: "rat option list \<Rightarrow> rat list" where
  "float_cells cells = map round_double (present_cells cells)"

definition kahan_step :: "rat \<times> rat \<Rightarrow> rat \<Rightarrow> rat \<times> rat" where
  "kahan_step st val =
     (case st of (sumx, compensation) \<Rightarrow>
        let y = round_double (val - compensation);
            t = round_double (sumx + y)
        in (t, round_double (round_double (t - sumx) - y)))"

definition mean :: "rat option list \<Rightarrow> rat option" where
  "mean cells =
     (let vs = float_cells cells
      in if vs = [] then None
         else Some (round_double (fst (foldl kahan_step (0, 0) vs) / of_nat (length vs))))"

definition median :: "rat option list \<Rightarrow> rat option" where
  "median cells =
     (let vs = sort (float_cells cells); n = length vs
      in if n = 0 then None
         else if odd n then Some (vs ! (n div 2))
         else Some (round_double (round_double (vs ! (n div 2) + vs ! (n div 2 - 1)) / 2)))"

definition sum_cells :: "int option list \<Rightarrow> int" where
  "sum_cells cells = sum_list (present_cells cells)"

definition agg :: "string \<Rightarrow> rental_record list \<Rightarrow> block_summary" where
  "agg key rows =
     \<lparr> summary_block_address = key,
       Average_Monthly_Rent = mean (map cleaned_monthly_rent rows),
       Average_Square_Footage = median (map cleaned_square_footage rows),
       Average_Bedroom_Count = median (map cleaned_bedroom_count rows),
       Average_Bathroom_Count = median (map cleaned_bathroom_count rows),
       Total_Rental_Units = sum_cells (map unit_count rows),
       mean_lat = mean (map latitude rows),
       mean_lon = mean (map longitude rows) \<rparr>"

definition group_keys :: "rental_record list \<Rightarrow> string list" where
  "group_keys rows = sort (remdups (present_cells (map block_address rows)))"

definition groupby_agg :: "rental_record list \<Rightarrow> block_summary list" where
  "groupby_agg rows =
     map (\<lambda>key. agg key (filter (\<lambda>r. block_address r = Some key) rows)) (group_keys rows)"

section \<open>The callback \<open>update_map\<close>\<close>

definition DEFAULT_SEARCH_QUERY :: string where
  "DEFAULT_SEARCH_QUERY = ''100 Larkin St''"

text \<open>
  What the callback hands back. \<open>Scatter_Mapbox\<close> is the figure of
  \<open>px.scatter_mapbox(aggregated_data, ...)\<close>, one marker per row of the aggregated
  table; \<open>Default_Figure\<close> is the figure of \<open>update_map_with_message\<close>, without data and
  titled "Default Search: 100 Larkin St". The callback either returns a figure and a
  status text, falls off its end (\<open>Returns_None\<close>, when the query pattern does not
  match), or an exception leaves it. \<open>Empty_Selection_Error\<close> stands for the exception
  of lines 86 to 89 when no row is left: depending on the column type pandas infers for
  the empty \<open>distance\<close> column, \<open>nsmallest\<close> raises \<open>TypeError\<close> or \<open>iloc[0]\<close> raises
  \<open>IndexError\<close>. \<open>Unmodelled_Pattern\<close> marks the queries whose street text is not a
  \<open>plain_pattern\<close>: the model says nothing about them.
\<close>

datatype figure =
    Scatter_Mapbox "block_summary list"
  | Default_Figure

datatype py_exception = AttributeError | Empty_Selection_Error

datatype outcome =
    Returns figure string
  | Returns_None
  | Raises py_exception
  | Unmodelled_Pattern

definition update_map_with_message :: "string \<Rightarrow> string \<Rightarrow> outcome" where
  "update_map_with_message search_query error_message = Returns Default_Figure error_message"

text \<open>
  Lines 39 to 43: an empty or blank query is replaced by the default one, then stripped.
\<close>

definition cleaned :: "string \<Rightarrow> string" where
  "cleaned search_query =
     strip (if search_query = [] \<or> strip search_query = [] then DEFAULT_SEARCH_QUERY
            else search_query)"

text \<open>
  Lines 59 to 67. \<open>addresses\<close> is \<open>matching_rows["block_address"].tolist()\<close>; every row
  that passed \<open>str.contains\<close> has an address. \<open>fuzzy_narrow\<close> is the narrowing by
  \<open>get_close_matches\<close>, \<open>select_rows\<close> the three steps together: containment, narrowing,
  and \<open>dropna\<close> on the coerced \<open>block_num\<close>.
\<close>

definition addresses :: "rental_record list \<Rightarrow> string list" where
  "addresses rows = present_cells (map block_address rows)"

definition fuzzy_narrow :: "string \<Rightarrow> rental_record list \<Rightarrow> rental_record list" where
  "fuzzy_narrow input_street matching_rows =
     (if matching_rows \<noteq> [] then
        (case get_close_matches input_street (addresses matching_rows) of
           [] \<Rightarrow> matching_rows
         | best # _ \<Rightarrow> filter (\<lambda>r. block_address r = Some best) matching_rows)
      else matching_rows)"

definition select_rows :: "rental_record list \<Rightarrow> string \<Rightarrow> rental_record list" where
  "select_rows rent_df input_street =
     filter (\<lambda>r. block_num r \<noteq> None)
       (fuzzy_narrow input_street
          (filter (\<lambda>r. str_contains input_street (block_address r)) rent_df))"

text \<open>
  Lines 70 to 89. \<open>floor_hundred n\<close> is \<open>n // 100 * 100\<close>. \<open>block_num_reference\<close> applies
  the lambda of line 75 to every address in turn: \<open>re.search\<close> gives \<open>None\<close> on a text
  without a digit, and \<open>.group(0)\<close> on \<open>None\<close> raises \<open>AttributeError\<close>.
  \<open>nsmallest1\<close> is \<open>nsmallest(1, "distance")\<close>: the first row of least distance.
\<close>

definition floor_hundred :: "int \<Rightarrow> int" where
  "floor_hundred n = n div 100 * 100"

fun block_num_reference :: "string list \<Rightarrow> py_exception + int list" where
  "block_num_reference [] = Inr []"
| "block_num_reference (x # xs) =
     (case first_digits x of
        None \<Rightarrow> Inl AttributeError
      | Some d \<Rightarrow>
          (case block_num_reference xs of
             Inl e \<Rightarrow> Inl e
           | Inr refs \<Rightarrow> Inr (floor_hundred (int_of_digits d) # refs)))"

fun nsmallest1 :: "(int \<times> 'a) list \<Rightarrow> (int \<times> 'a) list" where
  "nsmallest1 [] = []"
| "nsmallest1 (p # ps) = [fold (\<lambda>q best. if fst q < fst best then q else best) ps p]"

definition closest_block_address :: "rental_record list \<Rightarrow> string \<Rightarrow> py_exception + string" where
  "closest_block_address matching_rows input_number =
     (let input_block = floor_hundred (int_of_digits input_number)
      in case block_num_reference (addresses matching_rows) of
           Inl e \<Rightarrow> Inl e
         | Inr refs \<Rightarrow>
             (let distance = map (\<lambda>ref. \<bar>ref - input_block\<bar>) refs
              in case nsmallest1 (zip distance (addresses matching_rows)) of
                   [] \<Rightarrow> Inl Empty_Selection_Error
                 | closest_match # _ \<Rightarrow> Inr (snd closest_match)))"

text \<open>Lines 96 to 172: the rows of the closest block, the test on them, the figure.\<close>

definition show_block :: "rental_record list \<Rightarrow> string \<Rightarrow> outcome" where
  "show_block matching_rows closest =
     (let matching_rows_with_closest_block =
            filter (\<lambda>r. block_address r = Some closest) matching_rows
      in if matching_rows_with_closest_block = []
            \<or> list_ex (\<lambda>r. latitude r = None) matching_rows_with_closest_block
            \<or> list_ex (\<lambda>r. longitude r = None) matching_rows_with_closest_block
         then update_map_with_message DEFAULT_SEARCH_QUERY
                ''No valid data found. Please check the address format.''
         else Returns (Scatter_Mapbox (groupby_agg matching_rows_with_closest_block)) [])"

text \<open>
  The callback itself. \<open>if input_number:\<close> is false for \<open>None\<close> and for the empty
  text; in both cases the callback calls itself on the default query. That call ends
  at once, because the default query has a number.
\<close>

lemma address_match_default:
  "address_match (cleaned DEFAULT_SEARCH_QUERY) = Some (Some ''100'', ''Larkin St'')"
  by code_simp

function update_map :: "rental_record list \<Rightarrow> string \<Rightarrow> outcome" where
  "update_map rent_df search_query =
     (case address_match (cleaned search_query) of
        None \<Rightarrow> Returns_None
      | Some (input_number, group2) \<Rightarrow>
          (let input_street = strip group2
           in if input_street = [] then
                update_map_with_message DEFAULT_SEARCH_QUERY
                  ''Invalid input. Please enter a valid street name.''
              else if \<not> plain_pattern input_street then Unmodelled_Pattern
              else
                (case input_number of
                   None \<Rightarrow> update_map rent_df DEFAULT_SEARCH_QUERY
                 | Some number \<Rightarrow>
                     if number = [] then update_map rent_df DEFAULT_SEARCH_QUERY
                     else
                       (case closest_block_address (select_rows rent_df input_street) number of
                          Inl e \<Rightarrow> Raises e
                        | Inr closest \<Rightarrow> show_block (select_rows rent_df input_street) closest))))"
  by pat_completeness auto
termination
  by (relation "measure (\<lambda>(rent_df, q).
        case address_match (cleaned q) of
          Some (Some number, _) \<Rightarrow> if number = [] then 1 else 0
        | _ \<Rightarrow> 1)")
    (auto simp: address_match_default)

declare update_map.simps [simp del]

subsection \<open>Example tables\<close>

definition row :: "string \<Rightarrow> int \<Rightarrow> rat \<Rightarrow> rat option \<Rightarrow> rat option \<Rightarrow> rental_record" where
  "row addr num rent lat lon =
     \<lparr> block_address = Some addr, block_num = Some num,
       cleaned_monthly_rent = Some rent, cleaned_square_footage = Some 700,
       cleaned_bedroom_count = Some 1, cleaned_bathroom_count = Some 1,
       unit_count = Some 3, latitude = lat, longitude = lon \<rparr>"

definition example_df :: "rental_record list" where
  "example_df =
     [row ''100 Block of Larkin St'' 100 2000 (Some 37) (Some (-122)),
      row ''200 Block of Larkin St'' 200 2500 (Some 38) (Some (-122))]"

section \<open>Properties of the aggregation\<close>

subsection \<open>Computing with floats\<close>

text \<open>
  The rules below let the simplifier compute \<open>round_double\<close> on numerals. The three
  values of \<open>round_double_examples\<close> are the floats that Python prints as \<open>0.1\<close>,
  \<open>2277.84\<close> and \<open>-0.3333333333333333\<close>.
\<close>

lemma floor_numeral_div: "\<lfloor>numeral a / numeral b :: rat\<rfloor> = numeral a div numeral b"
  using floor_divide_of_int_eq[of "numeral a" "numeral b", where ?'a = rat] by simp

lemma floor_neg_numeral_div:
  "\<lfloor>- (numeral a / numeral b) :: rat\<rfloor> = (- numeral a) div numeral b"
  using floor_divide_of_int_eq[of "- numeral a" "numeral b", where ?'a = rat] by simp

lemma ceiling_numeral_div:
  "\<lceil>numeral a / numeral b :: rat\<rceil> = - ((- numeral a) div numeral b)"
  unfolding ceiling_def using floor_neg_numeral_div[of a b] by simp

lemmas float_eval = round_double_def ilog2_def bit_length_def bit_length_from.simps
  pow2_def round_half_even_def Let_def floor_numeral_div floor_neg_numeral_div
  ceiling_numeral_div

lemma round_double_examples:
  "round_double (1 / 10) = 3602879701896397 / 36028797018963968"
  "round_double (227784 / 100) = 626127891553321 / 274877906944"
  "round_double (- 1 / 3) = - (6004799503160661 / 18014398509481984)"
  by (simp_all add: float_eval)

subsection \<open>One block, one row\<close>

lemma remdups_replicate_Suc: "remdups (replicate (Suc n) k) = [k]"
  by (induction n) simp_all

lemma group_keys_single:
  assumes "rows \<noteq> []" "list_all (\<lambda>r. block_address r = Some key) rows"
  shows "group_keys rows = [key]"
proof -
  have "present_cells (map block_address rows) = replicate (length rows) key"
    using assms(2) by (induction rows) (simp_all add: present_cells_def)
  moreover have "remdups (replicate (length rows) key) = [key]"
    using assms(1) remdups_replicate_Suc[of "length rows - 1" key] by (cases rows) simp_all
  ultimately show ?thesis by (simp add: group_keys_def)
qed

lemma groupby_agg_single:
  assumes "rows \<noteq> []" "list_all (\<lambda>r. block_address r = Some key) rows"
  shows "groupby_agg rows = [agg key rows]"
proof -
  have "filter (\<lambda>r. block_address r = Some key) rows = rows"
    using assms(2) by (simp add: list_all_iff)
  then show ?thesis
    by (simp add: groupby_agg_def group_keys_single[OF assms])
qed

text \<open>Three rows of one block, used as an example below.\<close>

definition block_rows :: "rental_record list" where
  "block_rows =
     [\<lparr> block_address = Some ''100 Block of Larkin St'', block_num = Some 100,
         cleaned_monthly_rent = Some 2000, cleaned_square_footage = Some 900,
         cleaned_bedroom_count = Some 1, cleaned_bathroom_count = Some 1,
         unit_count = Some 3, latitude = Some 37, longitude = Some (-122) \<rparr>,
      \<lparr> block_address = Some ''100 Block of Larkin St'', block_num = Some 100,
         cleaned_monthly_rent = Some 2500, cleaned_square_footage = Some 600,
         cleaned_bedroom_count = Some 2, cleaned_bathroom_count = Some 1,
         unit_count = Some 4, latitude = Some 39, longitude = Some (-120) \<rparr>,
      \<lparr> block_address = Some ''100 Block of Larkin St'', block_num = Some 100,
         cleaned_monthly_rent = Some 2400, cleaned_square_footage = Some 700,
         cleaned_bedroom_count = Some 4, cleaned_bathroom_count = Some 2,
         unit_count = Some 5, latitude = Some 38, longitude = Some (-121) \<rparr>]"

text \<open>
  Claim C6. For rows that are not empty and share one block address, the aggregation
  yields exactly one summary row, for that address: the mean of the monthly rent, the
  medians of the square footage, the bedroom count and the bathroom count, the sum of
  the unit count, and the means of the latitude and the longitude.
\<close>

theorem aggregation_reductions:
  assumes "rows \<noteq> []" "list_all (\<lambda>r. block_address r = Some key) rows"
  shows "groupby_agg rows =
     [\<lparr> summary_block_address = key,
         Average_Monthly_Rent = mean (map cleaned_monthly_rent rows),
         Average_Square_Footage = median (map cleaned_square_footage rows),
         Average_Bedroom_Count = median (map cleaned_bedroom_count rows),
         Average_Bathroom_Count = median (map cleaned_bathroom_count rows),
         Total_Rental_Units = sum_cells (map unit_count rows),
         mean_lat = mean (map latitude rows),
         mean_lon = mean (map longitude rows) \<rparr>]"
  by (simp add: groupby_agg_single[OF assms] agg_def)

lemmas agg_eval = mean_def median_def sum_cells_def float_cells_def present_cells_def
  kahan_step_def

theorem aggregation_reductions_witness:
  "groupby_agg block_rows =
     [\<lparr> summary_block_address = ''100 Block of Larkin St'',
         Average_Monthly_Rent = Some 2300,
         Average_Square_Footage = Some 700,
         Average_Bedroom_Count = Some 2,
         Average_Bathroom_Count = Some 1,
         Total_Rental_Units = 12,
         mean_lat = Some 38,
         mean_lon = Some (-121) \<rparr>]"
proof -
  have n: "block_rows \<noteq> []" by (simp add: block_rows_def)
  have a: "list_all (\<lambda>r. block_address r = Some ''100 Block of Larkin St'') block_rows"
    by (simp add: block_rows_def)
  have "mean (map cleaned_monthly_rent block_rows) = Some 2300"
    by (simp add: block_rows_def agg_eval float_eval)
  moreover have "median (map cleaned_square_footage block_rows) = Some 700"
    by (simp add: block_rows_def agg_eval float_eval)
  moreover have "median (map cleaned_bedroom_count block_rows) = Some 2"
    by (simp add: block_rows_def agg_eval float_eval)
  moreover have "median (map cleaned_bathroom_count block_rows) = Some 1"
    by (simp add: block_rows_def agg_eval float_eval)
  moreover have "sum_cells (map unit_count block_rows) = 12"
    by (simp add: block_rows_def agg_eval)
  moreover have "mean (map latitude block_rows) = Some 38"
    by (simp add: block_rows_def agg_eval float_eval)
  moreover have "mean (map longitude block_rows) = Some (-121)"
    by (simp add: block_rows_def agg_eval float_eval)
  ultimately show ?thesis using aggregation_reductions[OF n a] by simp
qed


subsection \<open>The order of the rows\<close>

lemma mset_present_cells:
  "mset xs = mset ys \<Longrightarrow> mset (present_cells xs) = mset (present_cells ys)"
  by (simp add: present_cells_def map_filter_def)

lemma mset_float_cells:
  assumes "mset xs = mset ys"
  shows "mset (float_cells xs) = mset (float_cells ys)"
  unfolding float_cells_def using mset_present_cells[OF assms] by simp

lemma sort_float_cells:
  assumes "mset xs = mset ys"
  shows "sort (float_cells xs) = sort (float_cells ys)"
  by (rule sort_key_eq_sort_key) (simp_all add: mset_float_cells[OF assms])

lemma median_mset: "mset xs = mset ys \<Longrightarrow> median xs = median ys"
  unfolding median_def by (simp only: sort_float_cells[of xs ys])

lemma sum_cells_mset: "mset xs = mset ys \<Longrightarrow> sum_cells xs = sum_cells ys"
proof -
  assume "mset xs = mset ys"
  then have "mset (present_cells xs) = mset (present_cells ys)"
    by (rule mset_present_cells)
  then have "sum_mset (mset (present_cells xs)) = sum_mset (mset (present_cells ys))"
    by simp
  then show ?thesis by (simp only: sum_cells_def sum_mset_sum_list)
qed

lemma group_keys_mset: "mset rows' = mset rows \<Longrightarrow> group_keys rows' = group_keys rows"
proof -
  assume "mset rows' = mset rows"
  then have "mset (present_cells (map block_address rows'))
      = mset (present_cells (map block_address rows))"
    by (intro mset_present_cells) simp
  then have "set (present_cells (map block_address rows'))
      = set (present_cells (map block_address rows))"
    by (rule mset_eq_setD)
  then show ?thesis
    unfolding group_keys_def sorted_list_of_set_sort_remdups[symmetric] by simp
qed

lemma groupby_agg_field:
  "map f (groupby_agg rows)
     = map (\<lambda>key. f (agg key (filter (\<lambda>r. block_address r = Some key) rows))) (group_keys rows)"
  by (simp add: groupby_agg_def comp_def)

text \<open>
  Four rows of one block whose rents are 2277.84, 2615.99, 1919.95 and 1804.5, and the
  same rows with the second and the third exchanged.
\<close>

definition float_rows :: "rental_record list" where
  "float_rows =
     [row ''100 Block of Larkin St'' 100 (227784 / 100) (Some 37) (Some (-122)),
      row ''100 Block of Larkin St'' 100 (261599 / 100) (Some 37) (Some (-122)),
      row ''100 Block of Larkin St'' 100 (191995 / 100) (Some 37) (Some (-122)),
      row ''100 Block of Larkin St'' 100 (18045 / 10) (Some 37) (Some (-122))]"

definition float_rows_permuted :: "rental_record list" where
  "float_rows_permuted =
     [row ''100 Block of Larkin St'' 100 (227784 / 100) (Some 37) (Some (-122)),
      row ''100 Block of Larkin St'' 100 (191995 / 100) (Some 37) (Some (-122)),
      row ''100 Block of Larkin St'' 100 (261599 / 100) (Some 37) (Some (-122)),
      row ''100 Block of Larkin St'' 100 (18045 / 10) (Some 37) (Some (-122))]"

text \<open>
  Claim C9 says that the aggregated row does not depend on the order of the rows. The
  mean is a floating-point sum taken in row order, and the two orders of \<open>float_rows\<close>
  give two different floats for the mean rent: the first is the float nearest to
  2154.57 (Python prints \<open>2154.57\<close>), the second is the float just below it
  (\<open>2154.5699999999997\<close>).
\<close>

theorem aggregation_order_counterexample:
  "mset float_rows_permuted = mset float_rows
   \<and> map Average_Monthly_Rent (groupby_agg float_rows)
       = [Some (4737949535714673 / 2199023255552)]
   \<and> map Average_Monthly_Rent (groupby_agg float_rows_permuted)
       = [Some (296121845982167 / 137438953472)]
   \<and> groupby_agg float_rows_permuted \<noteq> groupby_agg float_rows"
proof -
  have m: "mset float_rows_permuted = mset float_rows"
    by (simp add: float_rows_permuted_def float_rows_def)
  have g1: "groupby_agg float_rows = [agg ''100 Block of Larkin St'' float_rows]"
    by (rule groupby_agg_single) (simp_all add: float_rows_def row_def)
  have g2: "groupby_agg float_rows_permuted
      = [agg ''100 Block of Larkin St'' float_rows_permuted]"
    by (rule groupby_agg_single) (simp_all add: float_rows_permuted_def row_def)
  have r1: "mean (map cleaned_monthly_rent float_rows)
      = Some (4737949535714673 / 2199023255552)"
    by (simp add: float_rows_def row_def agg_eval float_eval)
  have r2: "mean (map cleaned_monthly_rent float_rows_permuted)
      = Some (296121845982167 / 137438953472)"
    by (simp add: float_rows_permuted_def row_def agg_eval float_eval)
  have a1: "map Average_Monthly_Rent (groupby_agg float_rows)
      = [Some (4737949535714673 / 2199023255552)]"
    unfolding g1 by (simp add: agg_def r1)
  have a2: "map Average_Monthly_Rent (groupby_agg float_rows_permuted)
      = [Some (296121845982167 / 137438953472)]"
    unfolding g2 by (simp add: agg_def r2)
  have "map Average_Monthly_Rent (groupby_agg float_rows_permuted)
      \<noteq> map Average_Monthly_Rent (groupby_agg float_rows)"
    unfolding a1 a2 by simp
  then have "groupby_agg float_rows_permuted \<noteq> groupby_agg float_rows" by auto
  with m a1 a2 show ?thesis by simp
qed

text \<open>
  Claim C9, as amended. Aggregating a permutation of the rows gives summary rows with
  the same block addresses, the same medians of the square footage, the bedroom count
  and the bathroom count, and the same sum of the unit count. (The three means are
  left out: they are sums in row order.)
\<close>

theorem aggregation_order_independent:
  assumes "mset rows' = mset rows"
  shows "map summary_block_address (groupby_agg rows')
       = map summary_block_address (groupby_agg rows)
     \<and> map Average_Square_Footage (groupby_agg rows')
       = map Average_Square_Footage (groupby_agg rows)
     \<and> map Average_Bedroom_Count (groupby_agg rows')
       = map Average_Bedroom_Count (groupby_agg rows)
     \<and> map Average_Bathroom_Count (groupby_agg rows')
       = map Average_Bathroom_Count (groupby_agg rows)
     \<and> map Total_Rental_Units (groupby_agg rows')
       = map Total_Rental_Units (groupby_agg rows)"
proof -
  have m: "mset (map f (filter (\<lambda>r. block_address r = Some key) rows'))
      = mset (map f (filter (\<lambda>r. block_address r = Some key) rows))"
    for f :: "rental_record \<Rightarrow> 'b" and key
    using assms by simp
  show ?thesis
    unfolding groupby_agg_field group_keys_mset[OF assms] agg_def
    by (simp add: median_mset[OF m] sum_cells_mset[OF m])
qed

theorem aggregation_order_independent_witness:
  "map summary_block_address (groupby_agg float_rows_permuted)
       = map summary_block_address (groupby_agg float_rows)
     \<and> map Average_Square_Footage (groupby_agg float_rows_permuted)
       = map Average_Square_Footage (groupby_agg float_rows)
     \<and> map Average_Bedroom_Count (groupby_agg float_rows_permuted)
       = map Average_Bedroom_Count (groupby_agg float_rows)
     \<and> map Average_Bathroom_Count (groupby_agg float_rows_permuted)
       = map Average_Bathroom_Count (groupby_agg float_rows)
     \<and> map Total_Rental_Units (groupby_agg float_rows_permuted)
       = map Total_Rental_Units (groupby_agg float_rows)"
proof -
  have m: "mset float_rows_permuted = mset float_rows"
    by (simp add: float_rows_permuted_def float_rows_def)
  show ?thesis by (rule aggregation_order_independent[OF m])
qed

section \<open>Properties of the callback\<close>

subsection \<open>The default query\<close>

lemma strip_default: "strip DEFAULT_SEARCH_QUERY = DEFAULT_SEARCH_QUERY"
  by code_simp

lemma default_not_empty: "DEFAULT_SEARCH_QUERY \<noteq> []"
  by (simp add: DEFAULT_SEARCH_QUERY_def)

lemma cleaned_default: "cleaned DEFAULT_SEARCH_QUERY = DEFAULT_SEARCH_QUERY"
  by (simp add: cleaned_def strip_default default_not_empty)

lemma cleaned_blank: "strip q = [] \<Longrightarrow> cleaned q = DEFAULT_SEARCH_QUERY"
  by (simp add: cleaned_def strip_default)

text \<open>The callback reads its query only through \<open>cleaned\<close>.\<close>

lemma update_map_cong_cleaned:
  assumes "cleaned q1 = cleaned q2"
  shows "update_map rent_df q1 = update_map rent_df q2"
  unfolding update_map.simps[of rent_df q1] update_map.simps[of rent_df q2] assms ..

text \<open>
  Claim C8. On every table, a query that is empty or consists of whitespace only is
  answered exactly as the default query \<open>DEFAULT_SEARCH_QUERY\<close>: the default is put in
  its place before the query is parsed.
\<close>

theorem blank_query_is_default_query:
  assumes "strip search_query = []"
  shows "update_map rent_df search_query = update_map rent_df DEFAULT_SEARCH_QUERY"
  by (rule update_map_cong_cleaned) (simp add: cleaned_blank[OF assms] cleaned_default)

theorem blank_query_is_default_query_witness:
  "\<forall>rent_df. update_map rent_df [] = update_map rent_df ''100 Larkin St''
     \<and> update_map rent_df ''   '' = update_map rent_df ''100 Larkin St''"
proof -
  have e: "strip [] = []" by (simp add: strip_def)
  have b: "strip ''   '' = []" by code_simp
  show ?thesis
    using blank_query_is_default_query[OF e] blank_query_is_default_query[OF b]
    by (simp add: DEFAULT_SEARCH_QUERY_def)
qed

subsection \<open>The query parser\<close>

text \<open>
  A cleaned query is not empty and ends with a character that is not whitespace. On such
  a text the pattern always matches, with a second group that holds a character that is
  not whitespace, and a first group that is not empty when it is there.
\<close>

lemma strip_Nil_iff: "strip s = [] \<longleftrightarrow> (\<forall>c \<in> set s. is_space c)"
proof -
  have "strip s = [] \<longleftrightarrow> (\<forall>c \<in> set (dropWhile is_space s). is_space c)"
    by (simp add: strip_def dropWhile_eq_Nil_conv)
  also have "\<dots> \<longleftrightarrow> dropWhile is_space s = []"
    by (metis dropWhile_eq_Nil_conv dropWhile_idem)
  also have "\<dots> \<longleftrightarrow> (\<forall>c \<in> set s. is_space c)"
    by (simp add: dropWhile_eq_Nil_conv)
  finally show ?thesis .
qed

lemma strip_last: "strip s \<noteq> [] \<Longrightarrow> \<not> is_space (last (strip s))"
proof -
  assume "strip s \<noteq> []"
  then have ne: "dropWhile is_space (rev (dropWhile is_space s)) \<noteq> []"
    by (simp add: strip_def)
  then have "\<not> is_space (hd (dropWhile is_space (rev (dropWhile is_space s))))"
    by (rule hd_dropWhile)
  then show ?thesis using ne by (simp add: strip_def last_rev)
qed

lemma newline_is_space: "is_newline c \<Longrightarrow> is_space c"
  by (simp add: is_newline_def is_space_def)

lemma spaces_star_rest_some:
  assumes "\<not> (\<forall>c \<in> set s. is_space c)"
  shows "spaces_star_rest s = Some (takeWhile (\<lambda>c. \<not> is_newline c) (dropWhile is_space s))"
proof -
  let ?m = "length (takeWhile is_space s)"
  have d: "drop ?m s = dropWhile is_space s"
    by (metis append_eq_conv_conj takeWhile_dropWhile_id)
  have ne: "dropWhile is_space s \<noteq> []"
    using assms by (simp add: dropWhile_eq_Nil_conv)
  then have "\<not> is_space (hd (dropWhile is_space s))" by (rule hd_dropWhile)
  then have "\<not> is_newline (hd (dropWhile is_space s))" using newline_is_space by blast
  then have g: "takeWhile (\<lambda>c. \<not> is_newline c) (dropWhile is_space s) \<noteq> []"
    using ne by (cases "dropWhile is_space s") auto
  have dp: "dot_plus (drop ?m s) = Some (takeWhile (\<lambda>c. \<not> is_newline c) (dropWhile is_space s))"
    using g by (simp add: dot_plus_def d)
  show ?thesis
  proof (cases ?m)
    case 0
    then show ?thesis using dp by (simp add: spaces_star_rest_def)
  next
    case (Suc k)
    then show ?thesis using dp by (simp add: spaces_star_rest_def)
  qed
qed

lemma spaces_star_rest_Nil: "spaces_star_rest [] = None"
  by (simp add: spaces_star_rest_def dot_plus_def)

lemma spaces_star_rest_group:
  assumes "s = [] \<or> \<not> is_space (last s)" "spaces_star_rest s = Some g"
  shows "strip g \<noteq> []"
proof -
  have "s \<noteq> []" using assms spaces_star_rest_Nil by auto
  then have ns: "\<not> (\<forall>c \<in> set s. is_space c)" using assms(1) last_in_set by blast
  then have ne: "dropWhile is_space s \<noteq> []" by (simp add: dropWhile_eq_Nil_conv)
  then have h: "\<not> is_space (hd (dropWhile is_space s))" by (rule hd_dropWhile)
  then have hn: "\<not> is_newline (hd (dropWhile is_space s))" using newline_is_space by blast
  have g: "g = takeWhile (\<lambda>c. \<not> is_newline c) (dropWhile is_space s)"
    using spaces_star_rest_some[OF ns] assms(2) by simp
  have "hd (dropWhile is_space s) \<in> set g"
    unfolding g using ne hn by (cases "dropWhile is_space s") auto
  then show ?thesis using h by (auto simp: strip_Nil_iff)
qed

lemma digits_then_rest_some:
  "digits_then_rest k s = Some (d, g) \<Longrightarrow>
     \<exists>k'. 0 < k' \<and> k' \<le> k \<and> d = take k' s \<and> spaces_star_rest (drop k' s) = Some g"
proof (induction k)
  case 0
  then show ?case by simp
next
  case (Suc k)
  show ?case
  proof (cases "spaces_star_rest (drop (Suc k) s)")
    case None
    with Suc.prems have "digits_then_rest k s = Some (d, g)" by simp
    from Suc.IH[OF this] show ?thesis by (metis le_Suc_eq)
  next
    case (Some g')
    with Suc.prems have "d = take (Suc k) s" "g' = g" by auto
    then show ?thesis using Some by blast
  qed
qed

lemma last_drop_cases:
  "s = [] \<or> \<not> is_space (last s) \<Longrightarrow> drop k s = [] \<or> \<not> is_space (last (drop k s))"
  by (cases "k < length s") auto

lemma address_match_street:
  assumes "s = [] \<or> \<not> is_space (last s)" "address_match s = Some (n, g)"
  shows "strip g \<noteq> []"
proof (cases "digits_then_rest (length (takeWhile is_digit s)) s")
  case None
  then have "spaces_star_rest s = Some g" using assms(2) by (auto simp: address_match_def)
  from spaces_star_rest_group[OF assms(1) this] show ?thesis .
next
  case (Some p)
  obtain d g' where p: "p = (d, g')" by (cases p) auto
  have "g' = g" using assms(2) Some p by (simp add: address_match_def)
  from digits_then_rest_some[OF Some[unfolded p]] this
  obtain k' where "spaces_star_rest (drop k' s) = Some g" by auto
  from spaces_star_rest_group[OF last_drop_cases[OF assms(1)] this] show ?thesis .
qed

lemma address_match_number:
  assumes "address_match s = Some (Some n, g)"
  shows "n \<noteq> []"
proof (cases "digits_then_rest (length (takeWhile is_digit s)) s")
  case None
  then show ?thesis using assms by (auto simp: address_match_def)
next
  case (Some p)
  obtain d g' where p: "p = (d, g')" by (cases p) auto
  have n: "d = n" using assms Some p by (simp add: address_match_def)
  from digits_then_rest_some[OF Some[unfolded p]]
  obtain k' where k: "0 < k'" "k' \<le> length (takeWhile is_digit s)" "d = take k' s" by auto
  have "s \<noteq> []" using k by auto
  then show ?thesis using k n by auto
qed

lemma address_match_succeeds:
  assumes "s \<noteq> []" "\<not> is_space (last s)"
  shows "address_match s \<noteq> None"
proof -
  have "\<not> (\<forall>c \<in> set s. is_space c)" using assms last_in_set by blast
  from spaces_star_rest_some[OF this] show ?thesis
    by (auto simp: address_match_def split: option.splits)
qed

lemma cleaned_shape: "cleaned q \<noteq> [] \<and> \<not> is_space (last (cleaned q))"
proof (cases "q = [] \<or> strip q = []")
  case True
  then have "cleaned q = DEFAULT_SEARCH_QUERY" by (simp add: cleaned_def strip_default)
  moreover have "\<not> is_space (last DEFAULT_SEARCH_QUERY)" by code_simp
  ultimately show ?thesis by (simp add: default_not_empty)
next
  case False
  then have "cleaned q = strip q" "strip q \<noteq> []" by (simp_all add: cleaned_def)
  then show ?thesis using strip_last by simp
qed


subsection \<open>The two ways through the callback\<close>

lemma update_map_numbered:
  assumes "address_match (cleaned q) = Some (Some number, g)" "plain_pattern (strip g)"
  shows "update_map rent_df q =
     (case closest_block_address (select_rows rent_df (strip g)) number of
        Inl e \<Rightarrow> Raises e
      | Inr closest \<Rightarrow> show_block (select_rows rent_df (strip g)) closest)"
proof -
  have "strip g \<noteq> []"
    using address_match_street[OF _ assms(1)] cleaned_shape[of q] by blast
  moreover have "number \<noteq> []" using address_match_number[OF assms(1)] .
  ultimately show ?thesis
    unfolding update_map.simps[of rent_df q] assms(1) using assms(2) by (simp add: Let_def)
qed

lemma update_map_unnumbered:
  assumes "address_match (cleaned q) = Some (None, g)" "plain_pattern (strip g)"
  shows "update_map rent_df q = update_map rent_df DEFAULT_SEARCH_QUERY"
proof -
  have "strip g \<noteq> []"
    using address_match_street[OF _ assms(1)] cleaned_shape[of q] by blast
  then show ?thesis
    unfolding update_map.simps[of rent_df q] assms(1) using assms(2) by (simp add: Let_def)
qed

lemma strip_Larkin: "strip ''Larkin St'' = ''Larkin St''"
  by code_simp

lemma plain_Larkin: "plain_pattern ''Larkin St''"
  by code_simp

lemma update_map_default:
  "update_map rent_df DEFAULT_SEARCH_QUERY =
     (case closest_block_address (select_rows rent_df ''Larkin St'') ''100'' of
        Inl e \<Rightarrow> Raises e
      | Inr closest \<Rightarrow> show_block (select_rows rent_df ''Larkin St'') closest)"
  using update_map_numbered[OF address_match_default, of rent_df]
  unfolding strip_Larkin by (simp add: plain_Larkin)

subsection \<open>The example table\<close>

text \<open>
  The facts about \<open>example_df\<close> that the examples below share: the summary rows of its
  two blocks, the rows selected for the street texts "Larkin St" and "0", and the
  result of the default query, which is the marker of the 100 block.
\<close>

lemma show_block_shown:
  assumes "filter (\<lambda>r. block_address r = Some closest) rows = selected"
    and "selected \<noteq> []"
    and "\<not> list_ex (\<lambda>r. latitude r = None) selected"
    and "\<not> list_ex (\<lambda>r. longitude r = None) selected"
  shows "show_block rows closest = Returns (Scatter_Mapbox (groupby_agg selected)) []"
  using assms by (simp add: show_block_def Let_def)

lemma groupby_agg_larkin_100:
  "groupby_agg [row ''100 Block of Larkin St'' 100 2000 (Some 37) (Some (-122))] =
     [\<lparr> summary_block_address = ''100 Block of Larkin St'',
         Average_Monthly_Rent = Some 2000, Average_Square_Footage = Some 700,
         Average_Bedroom_Count = Some 1, Average_Bathroom_Count = Some 1,
         Total_Rental_Units = 3, mean_lat = Some 37, mean_lon = Some (-122) \<rparr>]"
proof -
  have "groupby_agg [row ''100 Block of Larkin St'' 100 2000 (Some 37) (Some (-122))]
      = [agg ''100 Block of Larkin St''
           [row ''100 Block of Larkin St'' 100 2000 (Some 37) (Some (-122))]]"
    by (rule groupby_agg_single) (simp_all add: row_def)
  then show ?thesis by (simp add: agg_def row_def agg_eval float_eval)
qed

lemma groupby_agg_larkin_200:
  "groupby_agg [row ''200 Block of Larkin St'' 200 2500 (Some 38) (Some (-122))] =
     [\<lparr> summary_block_address = ''200 Block of Larkin St'',
         Average_Monthly_Rent = Some 2500, Average_Square_Footage = Some 700,
         Average_Bedroom_Count = Some 1, Average_Bathroom_Count = Some 1,
         Total_Rental_Units = 3, mean_lat = Some 38, mean_lon = Some (-122) \<rparr>]"
proof -
  have "groupby_agg [row ''200 Block of Larkin St'' 200 2500 (Some 38) (Some (-122))]
      = [agg ''200 Block of Larkin St''
           [row ''200 Block of Larkin St'' 200 2500 (Some 38) (Some (-122))]]"
    by (rule groupby_agg_single) (simp_all add: row_def)
  then show ?thesis by (simp add: agg_def row_def agg_eval float_eval)
qed

lemma select_rows_example_Larkin: "select_rows example_df ''Larkin St'' = example_df"
  by code_simp

lemma select_rows_example_0: "select_rows example_df ''0'' = example_df"
  by code_simp

lemma example_100_rows:
  "filter (\<lambda>r. block_address r = Some ''100 Block of Larkin St'') example_df
     = [row ''100 Block of Larkin St'' 100 2000 (Some 37) (Some (-122))]"
  by code_simp

lemma example_200_rows:
  "filter (\<lambda>r. block_address r = Some ''200 Block of Larkin St'') example_df
     = [row ''200 Block of Larkin St'' 200 2500 (Some 38) (Some (-122))]"
  by code_simp

lemma show_block_example_100:
  "show_block example_df ''100 Block of Larkin St'' =
     Returns (Scatter_Mapbox
       [\<lparr> summary_block_address = ''100 Block of Larkin St'',
           Average_Monthly_Rent = Some 2000, Average_Square_Footage = Some 700,
           Average_Bedroom_Count = Some 1, Average_Bathroom_Count = Some 1,
           Total_Rental_Units = 3, mean_lat = Some 37, mean_lon = Some (-122) \<rparr>]) []"
  unfolding groupby_agg_larkin_100[symmetric]
  by (rule show_block_shown[OF example_100_rows]) (simp_all add: row_def)

lemma show_block_example_200:
  "show_block example_df ''200 Block of Larkin St'' =
     Returns (Scatter_Mapbox
       [\<lparr> summary_block_address = ''200 Block of Larkin St'',
           Average_Monthly_Rent = Some 2500, Average_Square_Footage = Some 700,
           Average_Bedroom_Count = Some 1, Average_Bathroom_Count = Some 1,
           Total_Rental_Units = 3, mean_lat = Some 38, mean_lon = Some (-122) \<rparr>]) []"
  unfolding groupby_agg_larkin_200[symmetric]
  by (rule show_block_shown[OF example_200_rows]) (simp_all add: row_def)

lemma closest_example_100:
  "closest_block_address example_df ''100'' = Inr ''100 Block of Larkin St''"
  by code_simp

lemma update_map_example_default:
  "update_map example_df DEFAULT_SEARCH_QUERY =
     Returns (Scatter_Mapbox
       [\<lparr> summary_block_address = ''100 Block of Larkin St'',
           Average_Monthly_Rent = Some 2000, Average_Square_Footage = Some 700,
           Average_Bedroom_Count = Some 1, Average_Bathroom_Count = Some 1,
           Total_Rental_Units = 3, mean_lat = Some 37, mean_lon = Some (-122) \<rparr>]) []"
  unfolding update_map_default select_rows_example_Larkin closest_example_100
  by (simp add: show_block_example_100)

subsection \<open>Block numbers\<close>

lemma fold_smallest:
  fixes p :: "int \<times> 'a"
  shows "fold (\<lambda>q best. if fst q < fst best then q else best) ps p \<in> set (p # ps)
   \<and> (\<forall>q \<in> set (p # ps).
         fst (fold (\<lambda>q best. if fst q < fst best then q else best) ps p) \<le> fst q)"
proof (induction ps arbitrary: p)
  case Nil
  then show ?case by simp
next
  case (Cons q ps)
  let ?b = "if fst q < fst p then q else p"
  let ?m = "fold (\<lambda>q best. if fst q < fst best then q else best) ps ?b"
  have m: "?m \<in> set (?b # ps)" "\<forall>x \<in> set (?b # ps). fst ?m \<le> fst x"
    using Cons.IH[of ?b] by blast+
  have "fst ?m \<le> fst ?b" using m(2) by simp
  then have "fst ?m \<le> fst p" "fst ?m \<le> fst q" by (auto split: if_splits)
  moreover have "?m \<in> set (p # q # ps)" using m(1) by (auto split: if_splits)
  moreover have "\<forall>x \<in> set ps. fst ?m \<le> fst x" using m(2) by simp
  ultimately show ?case by simp
qed

lemma block_num_reference_Inr:
  assumes "list_all (\<lambda>x. first_digits x \<noteq> None) xs"
  shows "block_num_reference xs
     = Inr (map (\<lambda>x. floor_hundred (int_of_digits (the (first_digits x)))) xs)"
  using assms by (induction xs) auto

text \<open>
  When every address has a digit and there is one at least, the closest block address
  is an address of least distance.
\<close>

lemma closest_block_address_least:
  assumes "addresses rows \<noteq> []"
    and "list_all (\<lambda>x. first_digits x \<noteq> None) (addresses rows)"
  shows "\<exists>closest d. closest_block_address rows number = Inr closest
     \<and> closest \<in> set (addresses rows) \<and> first_digits closest = Some d
     \<and> (\<forall>x \<in> set (addresses rows). \<forall>dx. first_digits x = Some dx \<longrightarrow>
           \<bar>int_of_digits d div 100 * 100 - int_of_digits number div 100 * 100\<bar>
           \<le> \<bar>int_of_digits dx div 100 * 100 - int_of_digits number div 100 * 100\<bar>)"
proof -
  let ?t = "floor_hundred (int_of_digits number)"
  let ?dist = "\<lambda>x. \<bar>floor_hundred (int_of_digits (the (first_digits x))) - ?t\<bar>"
  let ?xs = "addresses rows"
  obtain x xs where xs: "?xs = x # xs" using assms(1) by (cases ?xs) auto
  have z: "zip (map ?dist ?xs) ?xs = map (\<lambda>x. (?dist x, x)) ?xs"
    by (simp add: zip_map1 zip_same_conv_map)
  let ?m = "fold (\<lambda>q best. if fst q < fst best then q else best)
              (map (\<lambda>x. (?dist x, x)) xs) (?dist x, x)"
  have c: "closest_block_address rows number = Inr (snd ?m)"
    unfolding closest_block_address_def Let_def block_num_reference_Inr[OF assms(2)]
    by (simp add: z comp_def) (simp add: xs)
  have mm: "?m \<in> set (map (\<lambda>x. (?dist x, x)) ?xs)"
    "\<forall>q \<in> set (map (\<lambda>x. (?dist x, x)) ?xs). fst ?m \<le> fst q"
    using fold_smallest[of "map (\<lambda>x. (?dist x, x)) xs" "(?dist x, x)"]
    unfolding xs by simp_all
  from mm(1) have s: "snd ?m \<in> set ?xs" "fst ?m = ?dist (snd ?m)" by auto
  from s(1) assms(2) obtain d where d: "first_digits (snd ?m) = Some d"
    by (auto simp: list_all_iff)
  have "?dist (snd ?m) \<le> ?dist y" if "y \<in> set ?xs" for y
    using mm(2) that s(2) by auto
  then have "\<forall>y \<in> set ?xs. \<forall>dy. first_digits y = Some dy \<longrightarrow>
      \<bar>int_of_digits d div 100 * 100 - int_of_digits number div 100 * 100\<bar>
      \<le> \<bar>int_of_digits dy div 100 * 100 - int_of_digits number div 100 * 100\<bar>"
    using d by (fastforce simp: floor_hundred_def)
  with c s(1) d show ?thesis by blast
qed

text \<open>
  Claim C5. The requested number enters the distance only floored to the hundred,
  \<open>number // 100 * 100\<close>, and so does the number of each address. Two queries with the
  same street text whose numbers lie in the same hundred are answered alike on every
  table. Where the selected rows are not empty and each address has a digit, both
  queries resolve to one and the same block address: an address whose floored number
  is at the least distance from the floored requested number. The queries "150 Larkin St"
  and "199 Larkin St" are such a pair.
\<close>

theorem same_hundred_same_block:
  assumes "address_match (cleaned q1) = Some (Some n1, street)"
    and "address_match (cleaned q2) = Some (Some n2, street)"
    and "int_of_digits n1 div 100 = int_of_digits n2 div 100"
    and "rows = select_rows rent_df (strip street)"
  shows "update_map rent_df q1 = update_map rent_df q2
     \<and> (plain_pattern (strip street) \<and> addresses rows \<noteq> []
          \<and> list_all (\<lambda>x. first_digits x \<noteq> None) (addresses rows) \<longrightarrow>
         (\<exists>closest d.
             closest \<in> set (addresses rows) \<and> first_digits closest = Some d
           \<and> (\<forall>x \<in> set (addresses rows). \<forall>dx. first_digits x = Some dx \<longrightarrow>
                 \<bar>int_of_digits d div 100 * 100 - int_of_digits n1 div 100 * 100\<bar>
                 \<le> \<bar>int_of_digits dx div 100 * 100 - int_of_digits n1 div 100 * 100\<bar>)
           \<and> update_map rent_df q1 = show_block rows closest
           \<and> update_map rent_df q2 = show_block rows closest))"
proof -
  have f: "floor_hundred (int_of_digits n1) = floor_hundred (int_of_digits n2)"
    using assms(3) by (simp add: floor_hundred_def)
  have n: "n1 \<noteq> []" "n2 \<noteq> []"
    using address_match_number assms(1,2) by blast+
  have same: "closest_block_address rows n1 = closest_block_address rows n2"
    by (simp add: closest_block_address_def f Let_def)
  have eq: "update_map rent_df q1 = update_map rent_df q2"
    unfolding update_map.simps[of rent_df q1] update_map.simps[of rent_df q2] assms(1,2)
    using n by (simp add: closest_block_address_def f Let_def)
  have "\<exists>closest d.
             closest \<in> set (addresses rows) \<and> first_digits closest = Some d
           \<and> (\<forall>x \<in> set (addresses rows). \<forall>dx. first_digits x = Some dx \<longrightarrow>
                 \<bar>int_of_digits d div 100 * 100 - int_of_digits n1 div 100 * 100\<bar>
                 \<le> \<bar>int_of_digits dx div 100 * 100 - int_of_digits n1 div 100 * 100\<bar>)
           \<and> update_map rent_df q1 = show_block rows closest
           \<and> update_map rent_df q2 = show_block rows closest"
    if p: "plain_pattern (strip street)" and ne: "addresses rows \<noteq> []"
      and dg: "list_all (\<lambda>x. first_digits x \<noteq> None) (addresses rows)"
  proof -
    from closest_block_address_least[OF ne dg, of n1]
    obtain closest d where c: "closest_block_address rows n1 = Inr closest"
      "closest \<in> set (addresses rows)" "first_digits closest = Some d"
      "\<forall>x \<in> set (addresses rows). \<forall>dx. first_digits x = Some dx \<longrightarrow>
           \<bar>int_of_digits d div 100 * 100 - int_of_digits n1 div 100 * 100\<bar>
           \<le> \<bar>int_of_digits dx div 100 * 100 - int_of_digits n1 div 100 * 100\<bar>"
      by blast
    have "update_map rent_df q1 = show_block rows closest"
      unfolding update_map_numbered[OF assms(1) p] assms(4)[symmetric] c(1) by simp
    with eq c show ?thesis by auto
  qed
  with eq show ?thesis by blast
qed

text \<open>
  On \<open>example_df\<close> the queries "150 Larkin St" and "199 Larkin St" both resolve to the
  100 block; "200 Larkin St" resolves to the 200 block.
\<close>

theorem same_hundred_same_block_witness:
  "(\<forall>rent_df. update_map rent_df ''150 Larkin St'' = update_map rent_df ''199 Larkin St'')
   \<and> update_map example_df ''150 Larkin St'' =
       Returns (Scatter_Mapbox
         [\<lparr> summary_block_address = ''100 Block of Larkin St'',
             Average_Monthly_Rent = Some 2000, Average_Square_Footage = Some 700,
             Average_Bedroom_Count = Some 1, Average_Bathroom_Count = Some 1,
             Total_Rental_Units = 3, mean_lat = Some 37, mean_lon = Some (-122) \<rparr>]) []
   \<and> update_map example_df ''199 Larkin St'' = update_map example_df ''150 Larkin St''
   \<and> update_map example_df ''200 Larkin St'' =
       Returns (Scatter_Mapbox
         [\<lparr> summary_block_address = ''200 Block of Larkin St'',
             Average_Monthly_Rent = Some 2500, Average_Square_Footage = Some 700,
             Average_Bedroom_Count = Some 1, Average_Bathroom_Count = Some 1,
             Total_Rental_Units = 3, mean_lat = Some 38, mean_lon = Some (-122) \<rparr>]) []"
proof -
  have a: "address_match (cleaned ''150 Larkin St'') = Some (Some ''150'', ''Larkin St'')"
    by code_simp
  have b: "address_match (cleaned ''199 Larkin St'') = Some (Some ''199'', ''Larkin St'')"
    by code_simp
  have c: "int_of_digits ''150'' div 100 = int_of_digits ''199'' div 100"
    by code_simp
  have all: "\<forall>rent_df. update_map rent_df ''150 Larkin St'' = update_map rent_df ''199 Larkin St''"
    using same_hundred_same_block[OF a b c refl] by blast
  have r: "example_df = select_rows example_df (strip ''Larkin St'')"
    by (simp add: strip_Larkin select_rows_example_Larkin)
  have ad: "addresses example_df = [''100 Block of Larkin St'', ''200 Block of Larkin St'']"
    by code_simp
  have d1: "first_digits ''100 Block of Larkin St'' = Some ''100''" by code_simp
  have d2: "first_digits ''200 Block of Larkin St'' = Some ''200''" by code_simp
  have i: "int_of_digits ''100'' = 100" "int_of_digits ''200'' = 200"
    "int_of_digits ''150'' = 150"
    by code_simp+
  from same_hundred_same_block[OF a b c r]
  obtain closest d where cl: "closest \<in> set (addresses example_df)"
    "first_digits closest = Some d"
    "\<forall>x \<in> set (addresses example_df). \<forall>dx. first_digits x = Some dx \<longrightarrow>
        \<bar>int_of_digits d div 100 * 100 - int_of_digits ''150'' div 100 * 100\<bar>
        \<le> \<bar>int_of_digits dx div 100 * 100 - int_of_digits ''150'' div 100 * 100\<bar>"
    "update_map example_df ''150 Larkin St'' = show_block example_df closest"
    by (auto simp: strip_Larkin plain_Larkin ad d1 d2)
  have "closest = ''100 Block of Larkin St''"
    using cl(1,2) cl(3)[rule_format, of "''100 Block of Larkin St''" "''100''"]
    by (auto simp: ad d1 d2 i)
  then have r150: "update_map example_df ''150 Larkin St''
      = show_block example_df ''100 Block of Larkin St''"
    using cl(4) by simp
  have e: "address_match (cleaned ''200 Larkin St'') = Some (Some ''200'', ''Larkin St'')"
    by code_simp
  have c200: "closest_block_address example_df ''200'' = Inr ''200 Block of Larkin St''"
    by code_simp
  have r200: "update_map example_df ''200 Larkin St''
      = show_block example_df ''200 Block of Larkin St''"
    using update_map_numbered[OF e, of example_df]
    by (simp add: strip_Larkin plain_Larkin select_rows_example_Larkin c200)
  show ?thesis
    using all r150 r200 by (simp add: show_block_example_100 show_block_example_200)
qed

subsection \<open>Queries without a number\<close>

text \<open>
  Claim C1 says that a query without a leading number ends in an error. The callback
  instead calls itself on the default query and returns what that call returns: on
  \<open>example_df\<close> the query "Larkin St" yields the marker of the 100 block.
\<close>

theorem missing_number_counterexample:
  "address_match (cleaned ''Larkin St'') = Some (None, ''Larkin St'')
   \<and> update_map example_df ''Larkin St'' =
       Returns (Scatter_Mapbox
         [\<lparr> summary_block_address = ''100 Block of Larkin St'',
             Average_Monthly_Rent = Some 2000, Average_Square_Footage = Some 700,
             Average_Bedroom_Count = Some 1, Average_Bathroom_Count = Some 1,
             Total_Rental_Units = 3, mean_lat = Some 37, mean_lon = Some (-122) \<rparr>]) []"
proof -
  have a: "address_match (cleaned ''Larkin St'') = Some (None, ''Larkin St'')"
    by code_simp
  have "update_map example_df ''Larkin St'' = update_map example_df DEFAULT_SEARCH_QUERY"
    using update_map_unnumbered[OF a] by (simp add: strip_Larkin plain_Larkin)
  with a show ?thesis by (simp add: update_map_example_default)
qed

text \<open>
  Claim C1, as amended. For a query without a leading number whose street text is a
  plain pattern (it has no metacharacter of regular expressions), the callback scores
  no distance for that query: its result is the result of the default query
  \<open>DEFAULT_SEARCH_QUERY\<close> on the same table.
\<close>

theorem missing_number_resolves_default:
  assumes "address_match (cleaned search_query) = Some (None, group2)"
    and "plain_pattern (strip group2)"
  shows "update_map rent_df search_query = update_map rent_df DEFAULT_SEARCH_QUERY"
  using assms by (rule update_map_unnumbered)

theorem missing_number_resolves_default_witness:
  "update_map example_df ''Larkin St'' = update_map example_df ''100 Larkin St''"
proof -
  have a: "address_match (cleaned ''Larkin St'') = Some (None, ''Larkin St'')"
    by code_simp
  show ?thesis
    using missing_number_resolves_default[OF a, of example_df]
    by (simp add: strip_Larkin plain_Larkin DEFAULT_SEARCH_QUERY_def)
qed

subsection \<open>Queries that match no address\<close>

text \<open>
  Claim C2 says that a query whose street text is found in no address yields the
  default figure with the text "No valid data found. Please check the address format.".
  The query "Nonexistent St" matches no address of \<open>example_df\<close>, and the callback
  returns the marker of the default query.
\<close>

theorem no_candidate_counterexample:
  "address_match (cleaned ''Nonexistent St'') = Some (None, ''Nonexistent St'')
   \<and> filter (\<lambda>r. str_contains ''Nonexistent St'' (block_address r)) example_df = []
   \<and> update_map example_df ''Nonexistent St'' =
       Returns (Scatter_Mapbox
         [\<lparr> summary_block_address = ''100 Block of Larkin St'',
             Average_Monthly_Rent = Some 2000, Average_Square_Footage = Some 700,
             Average_Bedroom_Count = Some 1, Average_Bathroom_Count = Some 1,
             Total_Rental_Units = 3, mean_lat = Some 37, mean_lon = Some (-122) \<rparr>]) []"
proof -
  have a: "address_match (cleaned ''Nonexistent St'') = Some (None, ''Nonexistent St'')"
    by code_simp
  have p: "plain_pattern (strip ''Nonexistent St'')" by code_simp
  have f: "filter (\<lambda>r. str_contains ''Nonexistent St'' (block_address r)) example_df = []"
    by code_simp
  have "update_map example_df ''Nonexistent St'' = update_map example_df DEFAULT_SEARCH_QUERY"
    using update_map_unnumbered[OF a p] .
  with a f show ?thesis by (simp add: update_map_example_default)
qed

text \<open>
  Claim C2, as amended. For a query without a leading number whose street text is a
  plain pattern and is contained in no address of the table, no row is selected and
  the callback returns the result of the default query \<open>DEFAULT_SEARCH_QUERY\<close> on
  the same table, whatever that result is.
\<close>

theorem no_candidate_without_number:
  assumes "address_match (cleaned search_query) = Some (None, group2)"
    and "plain_pattern (strip group2)"
    and "filter (\<lambda>r. str_contains (strip group2) (block_address r)) rent_df = []"
  shows "select_rows rent_df (strip group2) = []
     \<and> update_map rent_df search_query = update_map rent_df DEFAULT_SEARCH_QUERY"
proof
  show "select_rows rent_df (strip group2) = []"
    by (simp add: select_rows_def assms(3) fuzzy_narrow_def)
  show "update_map rent_df search_query = update_map rent_df DEFAULT_SEARCH_QUERY"
    using assms(1,2) by (rule update_map_unnumbered)
qed

theorem no_candidate_without_number_witness:
  "select_rows example_df ''Nonexistent St'' = []
   \<and> update_map example_df ''Nonexistent St'' = update_map example_df ''100 Larkin St''"
proof -
  have a: "address_match (cleaned ''Nonexistent St'') = Some (None, ''Nonexistent St'')"
    by code_simp
  have s: "strip ''Nonexistent St'' = ''Nonexistent St''" by code_simp
  have p: "plain_pattern (strip ''Nonexistent St'')" by code_simp
  have f: "filter (\<lambda>r. str_contains (strip ''Nonexistent St'') (block_address r)) example_df = []"
    by code_simp
  show ?thesis
    using no_candidate_without_number[OF a p f]
    by (simp add: s DEFAULT_SEARCH_QUERY_def)
qed

subsection \<open>Queries without a street text\<close>

text \<open>
  Claim C3 expects the text "Invalid input. Please enter a valid street name." for a
  query such as "100". The pattern \<open>(\d+)?\s*(.+)\<close> needs one character for its second
  group, so the matcher gives the last digit back: the number is "10" and the street
  text is "0". On \<open>example_df\<close> the query "100" is resolved to the 100 block.
\<close>

theorem all_digit_query_is_resolved:
  "address_match (cleaned ''100'') = Some (Some ''10'', ''0'')
   \<and> update_map example_df ''100'' =
       Returns (Scatter_Mapbox
         [\<lparr> summary_block_address = ''100 Block of Larkin St'',
             Average_Monthly_Rent = Some 2000, Average_Square_Footage = Some 700,
             Average_Bedroom_Count = Some 1, Average_Bathroom_Count = Some 1,
             Total_Rental_Units = 3, mean_lat = Some 37, mean_lon = Some (-122) \<rparr>]) []"
proof -
  have a: "address_match (cleaned ''100'') = Some (Some ''10'', ''0'')"
    by code_simp
  have p: "plain_pattern (strip ''0'')" and s: "strip ''0'' = ''0''"
    by code_simp+
  have c: "closest_block_address example_df ''10'' = Inr ''100 Block of Larkin St''"
    by code_simp
  have "update_map example_df ''100'' = show_block example_df ''100 Block of Larkin St''"
    using update_map_numbered[OF a p, of example_df]
    by (simp add: s select_rows_example_0 c)
  with a show ?thesis by (simp add: show_block_example_100)
qed

lemma show_block_not_invalid_input:
  "show_block rows closest
     \<noteq> Returns Default_Figure ''Invalid input. Please enter a valid street name.''"
  by (simp add: show_block_def update_map_with_message_def Let_def)

text \<open>
  More generally the branch of line 51 is never taken: on every table and for every
  query the callback returns something else than the invalid-input text.
\<close>

theorem invalid_input_message_unreachable:
  "update_map rent_df search_query
     \<noteq> Returns Default_Figure ''Invalid input. Please enter a valid street name.''"
proof -
  let ?bad = "Returns Default_Figure ''Invalid input. Please enter a valid street name.''"
  have d: "update_map rent_df DEFAULT_SEARCH_QUERY \<noteq> ?bad"
    unfolding update_map_default
    by (simp add: show_block_not_invalid_input split: sum.splits)
  show ?thesis
  proof (cases "address_match (cleaned search_query)")
    case None
    then show ?thesis unfolding update_map.simps[of rent_df search_query] by simp
  next
    case (Some p)
    obtain n g where p: "p = (n, g)" by (cases p) auto
    note m = Some[unfolded p]
    show ?thesis
    proof (cases "plain_pattern (strip g)")
      case False
      have "strip g \<noteq> []"
        using address_match_street[OF _ m] cleaned_shape[of search_query] by blast
      then show ?thesis
        unfolding update_map.simps[of rent_df search_query] m using False
        by (simp add: Let_def)
    next
      case True
      show ?thesis
      proof (cases n)
        case None
        then show ?thesis using update_map_unnumbered[OF m[unfolded None] True] d by simp
      next
        case (Some number)
        show ?thesis
          unfolding update_map_numbered[OF m[unfolded Some] True]
          by (simp add: show_block_not_invalid_input split: sum.splits)
      qed
    qed
  qed
qed


subsection \<open>Addresses without a digit\<close>

lemma block_num_reference_Inl:
  "block_num_reference xs = Inl e \<longleftrightarrow>
     e = AttributeError \<and> list_ex (\<lambda>x. first_digits x = None) xs"
  by (induction xs) (auto split: option.splits sum.splits)

lemma closest_block_address_attribute_error:
  "closest_block_address rows number = Inl AttributeError \<longleftrightarrow>
     list_ex (\<lambda>x. first_digits x = None) (addresses rows)"
proof (cases "block_num_reference (addresses rows)")
  case (Inl e)
  then show ?thesis
    using block_num_reference_Inl[of "addresses rows" e]
    by (simp add: closest_block_address_def Let_def)
next
  case (Inr refs)
  then have "\<not> list_ex (\<lambda>x. first_digits x = None) (addresses rows)"
    using block_num_reference_Inl[of "addresses rows" AttributeError] by simp
  then show ?thesis
    using Inr by (auto simp: closest_block_address_def Let_def split: list.splits)
qed

lemma show_block_not_raises: "show_block rows closest \<noteq> Raises e"
  by (simp add: show_block_def update_map_with_message_def Let_def)

text \<open>
  Claim C10. For a query with a number (and a street text that is a plain pattern), the
  callback raises \<open>AttributeError\<close> exactly when one of the rows left after containment,
  narrowing and \<open>dropna\<close> has an address without a digit: the lambda of line 75 calls
  \<open>.group(0)\<close> on the failed search. So the callback can only return if every such
  address has a digit.
\<close>

theorem digitless_address_raises:
  assumes "address_match (cleaned search_query) = Some (Some number, group2)"
    and "plain_pattern (strip group2)"
  shows "update_map rent_df search_query = Raises AttributeError \<longleftrightarrow>
     list_ex (\<lambda>x. first_digits x = None) (addresses (select_rows rent_df (strip group2)))"
  unfolding update_map_numbered[OF assms]
    closest_block_address_attribute_error[of "select_rows rent_df (strip group2)" number, symmetric]
  by (simp add: show_block_not_raises split: sum.splits)

text \<open>
  In \<open>digitless_df\<close> the address "Larkin St Annex" has no digit; it is also the closest
  match of "Larkin St", so it is the one row left after the narrowing.
\<close>

definition digitless_df :: "rental_record list" where
  "digitless_df =
     [row ''100 Block of Larkin St'' 100 2000 (Some 37) (Some (-122)),
      row ''Larkin St Annex'' 0 2500 (Some 38) (Some (-122))]"

theorem digitless_address_raises_witness:
  "addresses (select_rows digitless_df ''Larkin St'')
     = [''Larkin St Annex'']
   \<and> update_map digitless_df ''100 Larkin St'' = Raises AttributeError
   \<and> update_map example_df ''100 Larkin St'' \<noteq> Raises AttributeError"
proof -
  have a: "address_match (cleaned ''100 Larkin St'') = Some (Some ''100'', ''Larkin St'')"
    by code_simp
  have p: "plain_pattern (strip ''Larkin St'')" by code_simp
  have r: "addresses (select_rows digitless_df (strip ''Larkin St''))
     = [''Larkin St Annex'']"
    by code_simp
  have d: "list_ex (\<lambda>x. first_digits x = None) [''Larkin St Annex'']"
    by code_simp
  have e: "\<not> list_ex (\<lambda>x. first_digits x = None)
     (addresses (select_rows example_df (strip ''Larkin St'')))"
    by code_simp
  show ?thesis
    using digitless_address_raises[OF a p, of digitless_df]
      digitless_address_raises[OF a p, of example_df] r d e
    by (simp add: strip_Larkin)
qed

subsection \<open>Rows without coordinates\<close>

text \<open>In \<open>nocoord_df\<close> one row of the 100 block has no latitude.\<close>

definition nocoord_df :: "rental_record list" where
  "nocoord_df =
     [row ''100 Block of Larkin St'' 100 2000 (Some 37) (Some (-122)),
      row ''100 Block of Larkin St'' 100 2400 None (Some (-122)),
      row ''200 Block of Larkin St'' 200 2500 (Some 38) (Some (-122))]"

text \<open>
  Claim C7. For any rows and any block address, the last step of the callback returns
  the default figure with the text "No valid data found. Please check the address
  format." exactly when no row has that address, or a row with that address lacks a
  latitude or a longitude; otherwise it returns the marker figure of the rows with
  that address. This step is what a query with a number returns once the closest
  block address is chosen.
\<close>

theorem no_valid_coordinates_iff:
  assumes "selected = filter (\<lambda>r. block_address r = Some closest) matching_rows"
  shows "(show_block matching_rows closest
            = Returns Default_Figure ''No valid data found. Please check the address format.''
          \<longleftrightarrow> selected = [] \<or> list_ex (\<lambda>r. latitude r = None) selected
                \<or> list_ex (\<lambda>r. longitude r = None) selected)
     \<and> (show_block matching_rows closest
            = Returns Default_Figure ''No valid data found. Please check the address format.''
          \<or> show_block matching_rows closest
            = Returns (Scatter_Mapbox (groupby_agg selected)) [])
     \<and> (address_match (cleaned search_query) = Some (Some number, group2)
          \<and> plain_pattern (strip group2)
          \<and> closest_block_address (select_rows rent_df (strip group2)) number = Inr closest
          \<longrightarrow> update_map rent_df search_query
                = show_block (select_rows rent_df (strip group2)) closest)"
proof -
  have "update_map rent_df search_query
      = show_block (select_rows rent_df (strip group2)) closest"
    if "address_match (cleaned search_query) = Some (Some number, group2)"
      and "plain_pattern (strip group2)"
      and "closest_block_address (select_rows rent_df (strip group2)) number = Inr closest"
    unfolding update_map_numbered[OF that(1,2)] that(3) by simp
  then show ?thesis
    unfolding assms by (auto simp: show_block_def update_map_with_message_def Let_def)
qed

theorem no_valid_coordinates_iff_witness:
  "show_block [] ''100 Block of Larkin St''
     = Returns Default_Figure ''No valid data found. Please check the address format.''
   \<and> show_block nocoord_df ''100 Block of Larkin St''
     = Returns Default_Figure ''No valid data found. Please check the address format.''
   \<and> show_block nocoord_df ''300 Block of Larkin St''
     = Returns Default_Figure ''No valid data found. Please check the address format.''
   \<and> show_block nocoord_df ''200 Block of Larkin St''
     = Returns (Scatter_Mapbox
         [\<lparr> summary_block_address = ''200 Block of Larkin St'',
             Average_Monthly_Rent = Some 2500, Average_Square_Footage = Some 700,
             Average_Bedroom_Count = Some 1, Average_Bathroom_Count = Some 1,
             Total_Rental_Units = 3, mean_lat = Some 38, mean_lon = Some (-122) \<rparr>]) []
   \<and> update_map nocoord_df ''120 Larkin St''
     = Returns Default_Figure ''No valid data found. Please check the address format.''"
proof -
  let ?nodata = "Returns Default_Figure ''No valid data found. Please check the address format.''"
  have e: "show_block [] ''100 Block of Larkin St'' = ?nodata"
    using no_valid_coordinates_iff[where selected = "[]" and matching_rows = "[]"
        and closest = "''100 Block of Larkin St''"]
    by simp
  have s1: "list_ex (\<lambda>r. latitude r = None)
     (filter (\<lambda>r. block_address r = Some ''100 Block of Larkin St'') nocoord_df)"
    by code_simp
  have n1: "show_block nocoord_df ''100 Block of Larkin St'' = ?nodata"
    using no_valid_coordinates_iff[OF refl, where matching_rows = nocoord_df
        and closest = "''100 Block of Larkin St''"] s1
    by blast
  have s3: "filter (\<lambda>r. block_address r = Some ''300 Block of Larkin St'') nocoord_df = []"
    by code_simp
  have n3: "show_block nocoord_df ''300 Block of Larkin St'' = ?nodata"
    using no_valid_coordinates_iff[OF refl, where matching_rows = nocoord_df
        and closest = "''300 Block of Larkin St''"] s3
    by blast
  have s2: "filter (\<lambda>r. block_address r = Some ''200 Block of Larkin St'') nocoord_df
     = [row ''200 Block of Larkin St'' 200 2500 (Some 38) (Some (-122))]"
    by code_simp
  have n2: "show_block nocoord_df ''200 Block of Larkin St''
     = Returns (Scatter_Mapbox (groupby_agg
         [row ''200 Block of Larkin St'' 200 2500 (Some 38) (Some (-122))])) []"
    using no_valid_coordinates_iff[OF s2[symmetric]] by (auto simp: row_def)
  have a: "address_match (cleaned ''120 Larkin St'') = Some (Some ''120'', ''Larkin St'')"
    by code_simp
  have sel: "select_rows nocoord_df ''Larkin St'' = nocoord_df" by code_simp
  have c: "closest_block_address nocoord_df ''120'' = Inr ''100 Block of Larkin St''"
    by code_simp
  have u: "update_map nocoord_df ''120 Larkin St''
      = show_block nocoord_df ''100 Block of Larkin St''"
    using no_valid_coordinates_iff[OF refl, where matching_rows = "[]"
        and closest = "''100 Block of Larkin St''" and search_query = "''120 Larkin St''"
        and number = "''120''" and ?group2.0 = "''Larkin St''" and rent_df = nocoord_df]
    by (simp add: a strip_Larkin plain_Larkin sel c)
  show ?thesis using e n1 n3 n2 u by (simp add: groupby_agg_larkin_200)
qed

section \<open>Properties of the narrowing\<close>

text \<open>
  \<open>tuple_less\<close> is a strict linear order, so the fold of \<open>nlargest1\<close> ends on a pair
  of the list that no pair of the list exceeds.
\<close>

lemma tuple_less_trans: "tuple_less p q \<Longrightarrow> tuple_less q r \<Longrightarrow> tuple_less p r"
  by (auto simp: tuple_less_def)

lemma tuple_not_less_trans:
  "\<not> tuple_less m p \<Longrightarrow> \<not> tuple_less p q \<Longrightarrow> \<not> tuple_less m q"
  by (auto simp: tuple_less_def)

lemma fold_largest:
  "fold (\<lambda>q best. if tuple_less best q then q else best) ps p \<in> set (p # ps)
   \<and> (\<forall>q \<in> set (p # ps).
         \<not> tuple_less (fold (\<lambda>q best. if tuple_less best q then q else best) ps p) q)"
proof (induction ps arbitrary: p)
  case Nil
  then show ?case by (simp add: tuple_less_def)
next
  case (Cons q ps)
  let ?f = "\<lambda>q best. if tuple_less best q then q else best"
  let ?b = "if tuple_less p q then q else p"
  let ?m = "fold ?f ps ?b"
  have m: "?m \<in> set (?b # ps)" "\<forall>x \<in> set (?b # ps). \<not> tuple_less ?m x"
    using Cons.IH[of ?b] by blast+
  have b: "\<not> tuple_less ?m ?b" using m(2) by simp
  have "\<not> tuple_less ?m p" "\<not> tuple_less ?m q"
    using b tuple_less_trans[of ?m p q] tuple_not_less_trans[of ?m p q]
    by (auto split: if_splits)
  moreover have "?m \<in> set (p # q # ps)" using m(1) by (auto split: if_splits)
  moreover have "\<forall>x \<in> set ps. \<not> tuple_less ?m x" using m(2) by simp
  ultimately show ?case by simp
qed

lemma get_close_matches_Nil:
  "get_close_matches word possibilities = [] \<longleftrightarrow>
     \<not> list_ex (\<lambda>x. cutoff \<le> ratio x word) possibilities"
proof -
  have "get_close_matches word possibilities = [] \<longleftrightarrow> scored word possibilities = []"
    by (cases "scored word possibilities") (simp_all add: get_close_matches_def)
  also have "\<dots> \<longleftrightarrow> \<not> list_ex (\<lambda>x. cutoff \<le> ratio x word) possibilities"
    by (simp add: scored_def filter_empty_conv list_ex_iff)
  finally show ?thesis .
qed

lemma get_close_matches_best:
  assumes "get_close_matches word possibilities = best # rest"
  shows "rest = [] \<and> best \<in> set possibilities \<and> cutoff \<le> ratio best word
     \<and> (\<forall>x \<in> set possibilities. ratio x word \<le> ratio best word)
     \<and> (\<forall>x \<in> set possibilities. ratio x word = ratio best word \<longrightarrow> x \<le> best)"
proof -
  obtain p ps where sc: "scored word possibilities = p # ps"
    using assms by (cases "scored word possibilities") (simp_all add: get_close_matches_def)
  let ?m = "fold (\<lambda>q best. if tuple_less best q then q else best) ps p"
  have r: "rest = []" and bm: "best = snd ?m"
    using assms by (simp_all add: get_close_matches_def sc)
  have min: "?m \<in> set (scored word possibilities)"
    and mx: "\<forall>q \<in> set (scored word possibilities). \<not> tuple_less ?m q"
    using fold_largest[of ps p] unfolding sc by blast+
  from min have m: "fst ?m = ratio best word" "best \<in> set possibilities"
    "cutoff \<le> ratio best word"
    unfolding bm by (auto simp: scored_def)
  have le: "ratio x word \<le> ratio best word \<and> (ratio x word = ratio best word \<longrightarrow> x \<le> best)"
    if x: "x \<in> set possibilities" for x
  proof (cases "cutoff \<le> ratio x word")
    case True
    then have "(ratio x word, x) \<in> set (scored word possibilities)"
      using x by (auto simp: scored_def)
    then have "\<not> tuple_less ?m (ratio x word, x)" using mx by blast
    then show ?thesis using m(1) bm by (auto simp: tuple_less_def)
  next
    case False
    then show ?thesis using m(3) by auto
  qed
  show ?thesis using r m(2,3) le by blast
qed

text \<open>
  Claim C4. If some candidate address scores at least 0.7 against the street text, the
  narrowing keeps the rows of one address only: an address of the candidates whose
  score is at least 0.7 and is the highest of all candidates. (Among addresses of
  equal highest score the library picks the greatest text.) If no candidate reaches
  0.7, the candidate rows are passed on as they are.
\<close>

theorem fuzzy_narrow_best_or_all:
  "(if list_ex (\<lambda>x. 7 / 10 \<le> ratio x input_street) (addresses matching_rows)
    then \<exists>best \<in> set (addresses matching_rows).
           7 / 10 \<le> ratio best input_street
         \<and> (\<forall>x \<in> set (addresses matching_rows).
               ratio x input_street \<le> ratio best input_street)
         \<and> fuzzy_narrow input_street matching_rows
             = filter (\<lambda>r. block_address r = Some best) matching_rows
    else fuzzy_narrow input_street matching_rows = matching_rows)"
proof (cases "get_close_matches input_street (addresses matching_rows)")
  case Nil
  then have "\<not> list_ex (\<lambda>x. 7 / 10 \<le> ratio x input_street) (addresses matching_rows)"
    using get_close_matches_Nil[of input_street "addresses matching_rows"]
    by (simp add: cutoff_def)
  then show ?thesis using Nil by (simp add: fuzzy_narrow_def)
next
  case (Cons best rest)
  from get_close_matches_best[OF Cons]
  have b: "best \<in> set (addresses matching_rows)" "7 / 10 \<le> ratio best input_street"
    "\<forall>x \<in> set (addresses matching_rows). ratio x input_street \<le> ratio best input_street"
    by (simp_all add: cutoff_def)
  have ne: "matching_rows \<noteq> []" using b(1) by (auto simp: addresses_def present_cells_def)
  have ex: "list_ex (\<lambda>x. 7 / 10 \<le> ratio x input_street) (addresses matching_rows)"
    using b(1,2) by (auto simp: list_ex_iff)
  have "fuzzy_narrow input_street matching_rows
      = filter (\<lambda>r. block_address r = Some best) matching_rows"
    using Cons ne by (simp add: fuzzy_narrow_def)
  then show ?thesis using ex b by auto
qed

text \<open>
  In \<open>mission_df\<close> the address "Mission St" scores 14/17 against "Mission" and
  "Mission Street" scores 2/3. No address of \<open>example_df\<close> reaches 0.7 against
  "Larkin St".
\<close>

definition mission_df :: "rental_record list" where
  "mission_df =
     [row ''Mission Street'' 0 2000 (Some 37) (Some (-122)),
      row ''Mission St'' 0 2500 (Some 38) (Some (-122)),
      row ''Mission Street'' 0 2200 (Some 37) (Some (-122)),
      row ''Mission St'' 0 2700 (Some 38) (Some (-122))]"

theorem fuzzy_narrow_best_or_all_witness:
  "fuzzy_narrow ''Mission'' mission_df
     = [row ''Mission St'' 0 2500 (Some 38) (Some (-122)),
        row ''Mission St'' 0 2700 (Some 38) (Some (-122))]
   \<and> fuzzy_narrow ''Larkin St'' example_df = example_df"
proof -
  have a: "addresses mission_df
     = [''Mission Street'', ''Mission St'', ''Mission Street'', ''Mission St'']"
    by code_simp
  have r1: "ratio ''Mission Street'' ''Mission'' = 2 / 3" by code_simp
  have r2: "ratio ''Mission St'' ''Mission'' = 14 / 17" by code_simp
  have f: "filter (\<lambda>r. block_address r = Some ''Mission St'') mission_df
     = [row ''Mission St'' 0 2500 (Some 38) (Some (-122)),
        row ''Mission St'' 0 2700 (Some 38) (Some (-122))]"
    by code_simp
  have e: "\<not> list_ex (\<lambda>x. 7 / 10 \<le> ratio x ''Larkin St'') (addresses example_df)"
    by code_simp
  have "fuzzy_narrow ''Mission'' mission_df
     = filter (\<lambda>r. block_address r = Some ''Mission St'') mission_df"
    using fuzzy_narrow_best_or_all[of "''Mission''" mission_df]
    unfolding a by (auto simp: r1 r2 split: if_splits)
  moreover have "fuzzy_narrow ''Larkin St'' example_df = example_df"
    using fuzzy_narrow_best_or_all[of "''Larkin St''" example_df] e by simp
  ultimately show ?thesis by (simp add: f)
qed

section \<open>Further properties of the callback\<close>

lemma show_block_not_None: "show_block rows closest \<noteq> Returns_None"
  by (simp add: show_block_def update_map_with_message_def Let_def)

text \<open>
  The query pattern matches every cleaned query, so the callback never falls off its
  end: it returns a figure and a text, or an exception leaves it.
\<close>

theorem callback_always_answers:
  "update_map rent_df search_query \<noteq> Returns_None"
proof -
  have d: "update_map rent_df DEFAULT_SEARCH_QUERY \<noteq> Returns_None"
    unfolding update_map_default
    by (simp add: show_block_not_None split: sum.splits)
  obtain n g where m: "address_match (cleaned search_query) = Some (n, g)"
    using address_match_succeeds[of "cleaned search_query"] cleaned_shape[of search_query]
    by (cases "address_match (cleaned search_query)") auto
  have s: "strip g \<noteq> []"
    using address_match_street[OF _ m] cleaned_shape[of search_query] by blast
  show ?thesis
  proof (cases "plain_pattern (strip g)")
    case False
    then show ?thesis
      unfolding update_map.simps[of rent_df search_query] m using s
      by (simp add: Let_def)
  next
    case True
    show ?thesis
    proof (cases n)
      case None
      then show ?thesis using update_map_unnumbered[OF m[unfolded None] True] d by simp
    next
      case (Some number)
      show ?thesis
        unfolding update_map_numbered[OF m[unfolded Some] True]
        by (simp add: show_block_not_None split: sum.splits)
    qed
  qed
qed

text \<open>
  For a query with a leading number whose street text (a plain pattern) is contained in
  no address of the table, no row is left to choose the closest block from, and the
  exception of lines 86 to 89 leaves the callback: the test for an empty selection in
  line 101 is not reached.
\<close>

theorem numbered_query_without_candidate_raises:
  assumes "address_match (cleaned search_query) = Some (Some number, group2)"
    and "plain_pattern (strip group2)"
    and "filter (\<lambda>r. str_contains (strip group2) (block_address r)) rent_df = []"
  shows "update_map rent_df search_query = Raises Empty_Selection_Error"
proof -
  have "select_rows rent_df (strip group2) = []"
    by (simp add: select_rows_def assms(3) fuzzy_narrow_def)
  then show ?thesis
    unfolding update_map_numbered[OF assms(1,2)]
    by (simp add: closest_block_address_def addresses_def present_cells_def)
qed

theorem numbered_query_without_candidate_raises_witness:
  "update_map example_df ''5 Nonexistent St'' = Raises Empty_Selection_Error"
proof -
  have a: "address_match (cleaned ''5 Nonexistent St'') = Some (Some ''5'', ''Nonexistent St'')"
    by code_simp
  have p: "plain_pattern (strip ''Nonexistent St'')" by code_simp
  have f: "filter (\<lambda>r. str_contains (strip ''Nonexistent St'') (block_address r)) example_df = []"
    by code_simp
  show ?thesis using numbered_query_without_candidate_raises[OF a p f] .
qed

text \<open>
  On \<open>example_df\<close> the query "120 Larkin St" is at distance 0 from the 100 block and at
  distance 100 from the 200 block, and returns the marker of the 100 block, with rent
  2000; the query "260 Larkin St" returns the marker of the 200 block.
\<close>

theorem nearest_block_scenario:
  "update_map example_df ''120 Larkin St'' =
     Returns (Scatter_Mapbox
       [\<lparr> summary_block_address = ''100 Block of Larkin St'',
           Average_Monthly_Rent = Some 2000, Average_Square_Footage = Some 700,
           Average_Bedroom_Count = Some 1, Average_Bathroom_Count = Some 1,
           Total_Rental_Units = 3, mean_lat = Some 37, mean_lon = Some (-122) \<rparr>]) []
   \<and> update_map example_df ''260 Larkin St'' =
     Returns (Scatter_Mapbox
       [\<lparr> summary_block_address = ''200 Block of Larkin St'',
           Average_Monthly_Rent = Some 2500, Average_Square_Footage = Some 700,
           Average_Bedroom_Count = Some 1, Average_Bathroom_Count = Some 1,
           Total_Rental_Units = 3, mean_lat = Some 38, mean_lon = Some (-122) \<rparr>]) []"
proof -
  have a: "address_match (cleaned ''120 Larkin St'') = Some (Some ''120'', ''Larkin St'')"
    and b: "address_match (cleaned ''260 Larkin St'') = Some (Some ''260'', ''Larkin St'')"
    by code_simp+
  have c: "closest_block_address example_df ''120'' = Inr ''100 Block of Larkin St''"
    and d: "closest_block_address example_df ''260'' = Inr ''200 Block of Larkin St''"
    by code_simp+
  have "update_map example_df ''120 Larkin St''
      = show_block example_df ''100 Block of Larkin St''"
    using update_map_numbered[OF a, of example_df]
    by (simp add: strip_Larkin plain_Larkin select_rows_example_Larkin c)
  moreover have "update_map example_df ''260 Larkin St''
      = show_block example_df ''200 Block of Larkin St''"
    using update_map_numbered[OF b, of example_df]
    by (simp add: strip_Larkin plain_Larkin select_rows_example_Larkin d)
  ultimately show ?thesis by (simp add: show_block_example_100 show_block_example_200)
qed

end
